theory Spec2Isabelle
  imports Complex_Main "HOL-Library.Sublist"
begin

section \<open>Python values and errors\<close>

text \<open>
  The model follows \<^verbatim>\<open>ingest_HDF5.py\<close>. Python floats are modelled as exact
  rationals: the rounding of IEEE doubles is not modelled. Exceptions are values of
  \<open>py_error\<close>; a computation that may raise returns \<open>py_error + 'a\<close> with \<open>Inl\<close> the
  exception.
\<close>

datatype var =
  Product_id_array | Side_array | Timestamp_array | Price_array | Size_array
  | Maker_order_id_array | Taker_order_id_array | Remaining_size_array | Order_id_array
  | Old_size_array | New_size_array | Reason_array | Order_type_array

datatype py_error =
  ZeroDivisionError
  | ValueError
  | TypeError
  | KeyError string
  | UnboundLocalError var
  | ProgrammingError

text \<open>Sequencing of computations that may raise: the first exception ends the run.\<close>

definition bind_err :: "(py_error + 'a) \<Rightarrow> ('a \<Rightarrow> py_error + 'b) \<Rightarrow> py_error + 'b" where
  "bind_err m f = (case m of Inl e \<Rightarrow> Inl e | Inr x \<Rightarrow> f x)"

primrec map_err :: "('a \<Rightarrow> py_error + 'b) \<Rightarrow> 'a list \<Rightarrow> py_error + 'b list" where
  "map_err f [] = Inr []"
| "map_err f (x # xs) =
     (case f x of Inl e \<Rightarrow> Inl e
      | Inr y \<Rightarrow> (case map_err f xs of Inl e \<Rightarrow> Inl e | Inr ys \<Rightarrow> Inr (y # ys)))"

section \<open>divide\<close>

text \<open>Python's true division \<^verbatim>\<open>x / y\<close> on numbers: a zero divisor raises.\<close>

definition py_truediv :: "rat \<Rightarrow> rat \<Rightarrow> py_error + rat" where
  "py_truediv x y = (if y = 0 then Inl ZeroDivisionError else Inr (x / y))"

text \<open>
  \<^verbatim>\<open>def divide(a, b):
      if b == 0:
          return 0.0
      return float(a)/b\<close>
\<close>

definition divide :: "int \<Rightarrow> int \<Rightarrow> py_error + rat" where
  "divide a b = (if b = 0 then Inr 0 else py_truediv (of_int a) (of_int b))"

text \<open>
  \<^verbatim>\<open>np.vectorize(f)(xs)\<close>: \<open>f\<close> on every element, in order; an exception of any call
  ends the whole conversion. With no \<^verbatim>\<open>otypes\<close> given, numpy finds the type of the
  result by a call on the first element, and raises ValueError for an array of size 0.
\<close>

definition np_vectorize :: "('a \<Rightarrow> py_error + 'b) \<Rightarrow> 'a list \<Rightarrow> py_error + 'b list" where
  "np_vectorize f xs = (if xs = [] then Inl ValueError else map_err f xs)"

text \<open>\<^verbatim>\<open>np.vectorize(divide)(column, scale)\<close>\<close>

definition np_vectorize_divide :: "int list \<Rightarrow> int \<Rightarrow> py_error + rat list" where
  "np_vectorize_divide xs b = np_vectorize (\<lambda>a. divide a b) xs"

section \<open>The chunking loop\<close>

text \<open>
  Python 3's \<^verbatim>\<open>round\<close> on a float: to the nearest integer, a tie to the even one.
\<close>

definition py_round :: "rat \<Rightarrow> int" where
  "py_round x = (let f = \<lfloor>x\<rfloor>; d = x - of_int f in
     if d < 1 / 2 then f else if 1 / 2 < d then f + 1 else if even f then f else f + 1)"

definition chunk :: nat where
  "chunk = 1000000"

text \<open>\<^verbatim>\<open>range(int(round((number_of_rows / chunk) + 0.5)))\<close>\<close>

definition chunk_counts :: "nat \<Rightarrow> nat list" where
  "chunk_counts number_of_rows =
     [0 ..< nat (py_round (of_nat number_of_rows / of_nat chunk + 1 / 2))]"

text \<open>
  The head of the loop body: \<open>start\<close> and \<open>end\<close> of iteration \<open>count\<close>, or \<open>None\<close>
  when the guard \<^verbatim>\<open>number_of_rows > start\<close> fails and the iteration does nothing.
\<close>

definition chunk_range :: "nat \<Rightarrow> nat \<Rightarrow> (nat \<times> nat) option" where
  "chunk_range number_of_rows count =
     (let start = count * chunk in
      if number_of_rows > start
      then Some (start, if number_of_rows < chunk then number_of_rows else (count + 1) * chunk)
      else None)"

text \<open>The \<open>(start, end)\<close> pairs of the iterations that pass the guard, in order.\<close>

definition chunk_ranges :: "nat \<Rightarrow> (nat \<times> nat) list" where
  "chunk_ranges number_of_rows =
     List.map_filter (chunk_range number_of_rows) (chunk_counts number_of_rows)"

section \<open>arrays\_to\_CSV\_string\<close>

text \<open>Python's \<^verbatim>\<open>sep.join(xs)\<close>.\<close>

fun join :: "string \<Rightarrow> string list \<Rightarrow> string" where
  "join sep [] = []"
| "join sep [x] = x"
| "join sep (x # y # ys) = x @ sep @ join sep (y # ys)"

text \<open>
  Python's \<^verbatim>\<open>zip(*arrays)\<close>: the tuples of the elements at equal positions, as many as
  the shortest array has elements; no tuple at all for no array.
\<close>

fun zip_star :: "'a list list \<Rightarrow> 'a list list" where
  "zip_star [] = []"
| "zip_star [xs] = map (\<lambda>x. [x]) xs"
| "zip_star (xs # ys # yss) = map (\<lambda>(x, row). x # row) (zip xs (zip_star (ys # yss)))"

text \<open>
  \<^verbatim>\<open>'\n'.join([','.join([str(x) for x in variables]) for variables in zip(*arrays)])\<close>.
  \<open>str_of\<close> is Python's \<^verbatim>\<open>str\<close> on the elements.
\<close>

definition arrays_to_CSV_string :: "('a \<Rightarrow> string) \<Rightarrow> 'a list list \<Rightarrow> string" where
  "arrays_to_CSV_string str_of arrays =
     join [CHR 0x0A] (map (\<lambda>variables. join '','' (map str_of variables)) (zip_star arrays))"

section \<open>Datasets and arrays\<close>

text \<open>
  A dataset \<^verbatim>\<open>h5[group + '/' + table]\<close> is an array of rows with named fields; its
  length is the row count and \<^verbatim>\<open>dataset[field][start:end]\<close> reads one field of a slice
  of rows. A row carries every field some event kind reads; each kind reads its own
  fields only. A text field holds raw bytes, modelled by what UTF-8 decoding makes of
  them: \<open>Some s\<close> for bytes that decode to \<open>s\<close>, \<open>None\<close> for bytes that are not valid
  UTF-8. The price is the number the file stores, whatever its dtype.
\<close>

datatype cell = IntC int | FloatC rat | StrC string | DatetimeC rat

record raw_row =
  side_col :: "string option"
  time_col :: int
  price_col :: cell
  size_col :: int
  remaining_size_col :: int
  old_size_col :: int
  new_size_col :: int
  order_id_col :: "string option"
  maker_order_id_col :: "string option"
  taker_order_id_col :: "string option"
  reason_col :: "string option"
  order_type_col :: "string option"

type_synonym dataset = "raw_row list"

text \<open>Python's \<^verbatim>\<open>xs[start:end]\<close> for \<open>0 \<le> start\<close>, \<open>0 \<le> end\<close>: clamped to the array.\<close>

definition py_slice :: "'a list \<Rightarrow> nat \<Rightarrow> nat \<Rightarrow> 'a list" where
  "py_slice xs start stop = take (stop - start) (drop start xs)"

text \<open>
  \<^verbatim>\<open>np.char.decode(column.astype(np.bytes_), 'UTF-8')\<close>: every element decoded, or
  UnicodeDecodeError (a ValueError) at the first element that does not decode.
\<close>

definition np_char_decode :: "string option list \<Rightarrow> py_error + cell list" where
  "np_char_decode xs =
     map_err (\<lambda>b. case b of None \<Rightarrow> Inl ValueError | Some s \<Rightarrow> Inr (StrC s)) xs"

text \<open>\<^verbatim>\<open>np.full(n, v)\<close>\<close>

definition np_full :: "nat \<Rightarrow> 'a \<Rightarrow> 'a list" where
  "np_full n v = replicate n v"

definition nil_uuid :: string where
  "nil_uuid = ''00000000-0000-0000-0000-000000000000''"

text \<open>
  \<^verbatim>\<open>try:
      xs = np.char.decode(column[start:end].astype(np.bytes_), 'UTF-8')
  except ValueError:
      xs = np.full(end, '00000000-0000-0000-0000-000000000000')\<close>
\<close>

definition decode_or_nil :: "string option list \<Rightarrow> nat \<Rightarrow> py_error + cell list" where
  "decode_or_nil column stop =
     (case np_char_decode column of
        Inr xs \<Rightarrow> Inr xs
      | Inl e \<Rightarrow> if e = ValueError then Inr (np_full stop (StrC nil_uuid)) else Inl e)"

section \<open>assemble\_data\_as\_string\<close>

text \<open>
  The local variables of one call: a name is unbound, or bound to the integer it was
  initialised with, or bound to an array.
\<close>

datatype pyval = PInt int | PArr "cell list"

type_synonym locals = "var \<Rightarrow> pyval option"

text \<open>
  \<^verbatim>\<open>size_array, maker_order_id_array, taker_order_id_array, remaining_size_array,
  order_id_array, old_size_array, new_size_array, reason_array = [0, 0, 0, 0, 0, 0, 0, 0]\<close>
\<close>

definition locals0 :: locals where
  "locals0 = [Size_array \<mapsto> PInt 0, Maker_order_id_array \<mapsto> PInt 0,
     Taker_order_id_array \<mapsto> PInt 0, Remaining_size_array \<mapsto> PInt 0,
     Order_id_array \<mapsto> PInt 0, Old_size_array \<mapsto> PInt 0, New_size_array \<mapsto> PInt 0,
     Reason_array \<mapsto> PInt 0]"

text \<open>
  \<^verbatim>\<open>datetime.fromtimestamp(seconds)\<close>, later turned to text by \<^verbatim>\<open>.astype('str')\<close>:
  the value \<open>DatetimeC seconds\<close>. Its text, which depends on the time zone of the
  machine, is left to the renderer; its exceptions for a time beyond the calendar are
  not modelled.
\<close>

definition fromtimestamp :: "rat \<Rightarrow> py_error + cell" where
  "fromtimestamp seconds = Inr (DatetimeC seconds)"

text \<open>Lines 71 to 75: product, side, time and price of the four kinds with a product.\<close>

definition gather_common :: "dataset \<Rightarrow> string \<Rightarrow> int \<Rightarrow> nat \<Rightarrow> nat \<Rightarrow> locals \<Rightarrow> py_error + locals" where
  "gather_common ds db_table_name product_id start stop env =
     (if db_table_name \<in> set [''match'', ''open'', ''done'', ''change'']
      then bind_err (np_char_decode (map side_col (py_slice ds start stop))) (\<lambda>side.
           bind_err (np_vectorize fromtimestamp
                       (map (\<lambda>r. of_int (time_col r) / 1000000) (py_slice ds start stop)))
             (\<lambda>timestamp.
             Inr (env(Product_id_array \<mapsto> PArr (np_full stop (IntC product_id)),
                      Side_array \<mapsto> PArr side,
                      Timestamp_array \<mapsto> PArr timestamp,
                      Price_array \<mapsto> PArr (map price_col (py_slice ds start stop))))))
      else Inr env)"

text \<open>Lines 76 to 80: the order id, with the fallback.\<close>

definition gather_order_id :: "dataset \<Rightarrow> string \<Rightarrow> nat \<Rightarrow> nat \<Rightarrow> locals \<Rightarrow> py_error + locals" where
  "gather_order_id ds db_table_name start stop env =
     (if db_table_name \<in> set [''open'', ''done'', ''change'', ''received'']
      then bind_err (decode_or_nil (map order_id_col (py_slice ds start stop)) stop) (\<lambda>xs.
             Inr (env(Order_id_array \<mapsto> PArr xs)))
      else Inr env)"

text \<open>Lines 81 and 82: the side, for all five kinds.\<close>

definition gather_side :: "dataset \<Rightarrow> string \<Rightarrow> nat \<Rightarrow> nat \<Rightarrow> locals \<Rightarrow> py_error + locals" where
  "gather_side ds db_table_name start stop env =
     (if db_table_name \<in> set [''match'', ''open'', ''done'', ''change'', ''received'']
      then bind_err (np_char_decode (map side_col (py_slice ds start stop))) (\<lambda>side.
             Inr (env(Side_array \<mapsto> PArr side)))
      else Inr env)"

text \<open>Lines 83 and 84.\<close>

definition gather_remaining_size :: "dataset \<Rightarrow> string \<Rightarrow> nat \<Rightarrow> nat \<Rightarrow> locals \<Rightarrow> py_error + locals" where
  "gather_remaining_size ds db_table_name start stop env =
     (if db_table_name \<in> set [''open'', ''done'']
      then bind_err (np_vectorize_divide (map remaining_size_col (py_slice ds start stop)) 100000000)
             (\<lambda>xs. Inr (env(Remaining_size_array \<mapsto> PArr (map FloatC xs))))
      else Inr env)"

text \<open>Lines 85 to 94: size and the two order ids of a match, each id with the fallback.\<close>

definition gather_match :: "dataset \<Rightarrow> string \<Rightarrow> nat \<Rightarrow> nat \<Rightarrow> locals \<Rightarrow> py_error + locals" where
  "gather_match ds db_table_name start stop env =
     (if db_table_name = ''match''
      then bind_err (np_vectorize_divide (map size_col (py_slice ds start stop)) 100000000) (\<lambda>xs.
           bind_err (decode_or_nil (map maker_order_id_col (py_slice ds start stop)) stop) (\<lambda>maker.
           bind_err (decode_or_nil (map taker_order_id_col (py_slice ds start stop)) stop) (\<lambda>taker.
             Inr (env(Size_array \<mapsto> PArr (map FloatC xs),
                      Maker_order_id_array \<mapsto> PArr maker,
                      Taker_order_id_array \<mapsto> PArr taker)))))
      else Inr env)"

text \<open>Lines 95 to 97.\<close>

definition gather_change :: "dataset \<Rightarrow> string \<Rightarrow> nat \<Rightarrow> nat \<Rightarrow> locals \<Rightarrow> py_error + locals" where
  "gather_change ds db_table_name start stop env =
     (if db_table_name = ''change''
      then bind_err (np_vectorize_divide (map old_size_col (py_slice ds start stop)) 100000000) (\<lambda>xs.
           bind_err (np_vectorize_divide (map new_size_col (py_slice ds start stop)) 100000000) (\<lambda>ys.
             Inr (env(Old_size_array \<mapsto> PArr (map FloatC xs),
                      New_size_array \<mapsto> PArr (map FloatC ys)))))
      else Inr env)"

text \<open>Lines 98 and 99.\<close>

definition gather_reason :: "dataset \<Rightarrow> string \<Rightarrow> nat \<Rightarrow> nat \<Rightarrow> locals \<Rightarrow> py_error + locals" where
  "gather_reason ds db_table_name start stop env =
     (if db_table_name = ''done''
      then bind_err (np_char_decode (map reason_col (py_slice ds start stop))) (\<lambda>xs.
             Inr (env(Reason_array \<mapsto> PArr xs)))
      else Inr env)"

text \<open>Lines 100 and 101.\<close>

definition gather_order_type :: "dataset \<Rightarrow> string \<Rightarrow> nat \<Rightarrow> nat \<Rightarrow> locals \<Rightarrow> py_error + locals" where
  "gather_order_type ds db_table_name start stop env =
     (if db_table_name = ''received''
      then bind_err (np_char_decode (map order_type_col (py_slice ds start stop))) (\<lambda>xs.
             Inr (env(Order_type_array \<mapsto> PArr xs)))
      else Inr env)"

text \<open>Lines 70 to 101: "gather data into separate arrays", in the order of the source.\<close>

definition gather :: "dataset \<Rightarrow> string \<Rightarrow> int \<Rightarrow> nat \<Rightarrow> nat \<Rightarrow> locals \<Rightarrow> py_error + locals" where
  "gather ds db_table_name product_id start stop env =
     bind_err (gather_common ds db_table_name product_id start stop env) (\<lambda>env.
     bind_err (gather_order_id ds db_table_name start stop env) (\<lambda>env.
     bind_err (gather_side ds db_table_name start stop env) (\<lambda>env.
     bind_err (gather_remaining_size ds db_table_name start stop env) (\<lambda>env.
     bind_err (gather_match ds db_table_name start stop env) (\<lambda>env.
     bind_err (gather_change ds db_table_name start stop env) (\<lambda>env.
     bind_err (gather_reason ds db_table_name start stop env) (\<lambda>env.
     gather_order_type ds db_table_name start stop env)))))))"

text \<open>Reading a local variable: an unbound one raises UnboundLocalError.\<close>

definition read_var :: "locals \<Rightarrow> var \<Rightarrow> py_error + pyval" where
  "read_var env v = (case env v of None \<Rightarrow> Inl (UnboundLocalError v) | Some x \<Rightarrow> Inr x)"

text \<open>An argument of \<^verbatim>\<open>zip\<close> must be iterable: an integer raises TypeError.\<close>

definition as_array :: "pyval \<Rightarrow> py_error + cell list" where
  "as_array x = (case x of PArr xs \<Rightarrow> Inr xs | PInt i \<Rightarrow> Inl TypeError)"

text \<open>
  \<^verbatim>\<open>arrays_to_CSV_string(arrays=[v1, v2, ...])\<close>: the list is built first, reading the
  variables from left to right, then the function is called.
\<close>

definition csv_of_vars :: "(cell \<Rightarrow> string) \<Rightarrow> locals \<Rightarrow> var list \<Rightarrow> py_error + string" where
  "csv_of_vars str_of env vs =
     bind_err (map_err (read_var env) vs) (\<lambda>vals.
     bind_err (map_err as_array vals) (\<lambda>arrays.
       Inr (arrays_to_CSV_string str_of arrays)))"

text \<open>
  \<^verbatim>\<open>if kind in db_table: sio.writelines(arrays_to_CSV_string(arrays=[...]))\<close>: a
  substring test on the table name; the text is appended to the buffer.
\<close>

definition write_if :: "(cell \<Rightarrow> string) \<Rightarrow> locals \<Rightarrow> string \<Rightarrow> string \<Rightarrow> var list \<Rightarrow> string \<Rightarrow> py_error + string" where
  "write_if str_of env db_table kind vs sio =
     (if sublist kind db_table
      then bind_err (csv_of_vars str_of env vs) (\<lambda>text. Inr (sio @ text))
      else Inr sio)"

text \<open>Lines 104 to 123: the buffer \<^verbatim>\<open>sio\<close> of one chunk.\<close>

definition fill_sio :: "(cell \<Rightarrow> string) \<Rightarrow> locals \<Rightarrow> string \<Rightarrow> py_error + string" where
  "fill_sio str_of env db_table =
     bind_err (write_if str_of env db_table ''open''
        [Product_id_array, Side_array, Timestamp_array, Price_array, Remaining_size_array,
         Order_id_array] []) (\<lambda>sio.
     bind_err (write_if str_of env db_table ''done''
        [Product_id_array, Side_array, Timestamp_array, Price_array, Remaining_size_array,
         Reason_array, Order_id_array] sio) (\<lambda>sio.
     bind_err (write_if str_of env db_table ''match''
        [Product_id_array, Side_array, Timestamp_array, Price_array, Size_array,
         Maker_order_id_array, Taker_order_id_array] sio) (\<lambda>sio.
     bind_err (write_if str_of env db_table ''change''
        [Product_id_array, Side_array, Timestamp_array, Price_array, Old_size_array,
         New_size_array, Order_id_array] sio) (\<lambda>sio.
     write_if str_of env db_table ''received''
        [Order_id_array, Order_type_array, Side_array] sio))))"

definition db_table_columns :: "string \<rightharpoonup> string list" where
  "db_table_columns =
     [''match'' \<mapsto> [''unique_id'', ''product_id'', ''side'', ''time'', ''price'', ''size'',
        ''maker_order_id'', ''taker_order_id''],
      ''open'' \<mapsto> [''unique_id'', ''product_id'', ''side'', ''time'', ''price'',
        ''remaining_size'', ''order_id''],
      ''change'' \<mapsto> [''unique_id'', ''product_id'', ''side'', ''time'', ''price'', ''old_size'',
        ''new_size'', ''order_id''],
      ''done'' \<mapsto> [''unique_id'', ''product_id'', ''side'', ''time'', ''price'',
        ''remaining_size'', ''reason'', ''order_id''],
      ''received'' \<mapsto> [''unique_id'', ''order_id'', ''order_type'', ''side'']]"

text \<open>
  \<^verbatim>\<open>str(columns).replace("'", "")\<close> for a tuple of names: the names, separated by a
  comma and a space, in parentheses (a tuple of one name prints a comma after it).
\<close>

definition tuple_text :: "string list \<Rightarrow> string" where
  "tuple_text cols =
     (if length cols = 1 then ''('' @ hd cols @ '',)'' else ''('' @ join '', '' cols @ '')'')"

text \<open>
  Lines 128 and 129. The lookup \<^verbatim>\<open>db_table_columns[db_table[10:]]\<close> raises KeyError
  for a name that is not a key.
\<close>

definition copy_sql :: "string \<Rightarrow> py_error + string" where
  "copy_sql db_table =
     (case db_table_columns (drop 10 db_table) of
        None \<Rightarrow> Inl (KeyError (drop 10 db_table))
      | Some cols \<Rightarrow>
          Inr (''COPY '' @ db_table @ '' '' @ tuple_text (tl cols) @ '' FROM STDIN WITH CSV HEADER''))"

text \<open>
  \<^verbatim>\<open>cur.copy_expert(sql, sio, size=8192)\<close> hands the statement and the buffer to the
  store. The cursor is modelled by the list of these calls; what the store makes of a
  buffer (with \<^verbatim>\<open>CSV HEADER\<close> it takes the first line for a header) is outside the
  model.
\<close>

type_synonym cursor = "(string \<times> string) list"

definition copy_expert :: "cursor \<Rightarrow> string \<Rightarrow> string \<Rightarrow> cursor" where
  "copy_expert cur sql sio = cur @ [(sql, sio)]"

text \<open>One iteration of the loop over \<open>count\<close> (lines 64 to 131).\<close>

definition chunk_body :: "(cell \<Rightarrow> string) \<Rightarrow> dataset \<Rightarrow> string \<Rightarrow> int \<Rightarrow> nat \<Rightarrow> locals \<times> cursor \<Rightarrow> py_error + locals \<times> cursor" where
  "chunk_body str_of ds db_table product_id count s =
     (case chunk_range (length ds) count of
        None \<Rightarrow> Inr s
      | Some (start, stop) \<Rightarrow>
          bind_err (gather ds (drop 10 db_table) product_id start stop (fst s)) (\<lambda>env.
          bind_err (fill_sio str_of env db_table) (\<lambda>sio.
          bind_err (copy_sql db_table) (\<lambda>sql.
            Inr (env, copy_expert (snd s) sql sio)))))"

text \<open>A \<^verbatim>\<open>for\<close> loop whose body may raise.\<close>

primrec for_each :: "('a \<Rightarrow> 's \<Rightarrow> py_error + 's) \<Rightarrow> 'a list \<Rightarrow> 's \<Rightarrow> py_error + 's" where
  "for_each body [] s = Inr s"
| "for_each body (x # xs) s = bind_err (body x s) (for_each body xs)"

text \<open>
  \<^verbatim>\<open>assemble_data_as_string(h5, group, table, db_table)\<close>, with the dataset
  \<^verbatim>\<open>h5[group + '/' + table]\<close> and the globals \<^verbatim>\<open>cur\<close> and \<^verbatim>\<open>product_id\<close> it reads as
  arguments. It returns the cursor after its calls of \<^verbatim>\<open>copy_expert\<close>.
\<close>

definition assemble_data_as_string :: "(cell \<Rightarrow> string) \<Rightarrow> cursor \<Rightarrow> int \<Rightarrow> dataset \<Rightarrow> string \<Rightarrow> py_error + cursor" where
  "assemble_data_as_string str_of cur product_id ds db_table =
     bind_err (for_each (chunk_body str_of ds db_table product_id) (chunk_counts (length ds))
                 (locals0, cur))
       (\<lambda>s. Inr (snd s))"

section \<open>The store\<close>

text \<open>
  The PostgreSQL store behind \<^verbatim>\<open>conn\<close> and \<^verbatim>\<open>cur\<close>, and the printed messages. The
  fields \<open>product\<close>, \<open>file_log\<close> and \<open>copied\<close> are the tables as the connection sees them:
  what is committed and what its own open transaction has changed (psycopg2 opens a
  transaction with the first statement and does not commit by itself). The fields
  \<open>committed_product\<close>, \<open>committed_file_log\<close> and \<open>committed_copied\<close> are the tables
  as committed: \<^verbatim>\<open>conn.commit()\<close> copies the first into the second, and what is not
  committed when the script ends is lost. A sequence is not part of a transaction. An
  exception ends the run; the state it leaves is not tracked.
\<close>

record product_row =
  p_unique_id :: int
  p_symbol :: string
  p_currency :: string
  p_name :: string
  p_exchange :: string

datatype message =
  Processing string
  | Loading string string
  | Time_taken
  | Already_recorded string string

record store =
  product :: "product_row list"
  product_seq :: int
  file_log :: "(string \<times> string) list"
  copied :: cursor
  stdout :: "message list"
  committed_product :: "product_row list"
  committed_file_log :: "(string \<times> string) list"
  committed_copied :: cursor

text \<open>\<^verbatim>\<open>conn.commit()\<close>\<close>

definition conn_commit :: "store \<Rightarrow> store" where
  "conn_commit db = db\<lparr>committed_product := product db, committed_file_log := file_log db,
                        committed_copied := copied db\<rparr>"

text \<open>
  Lines 166 and 167, \<^verbatim>\<open>psycopg2.connect(...)\<close> at the start of a run of the script: the
  new connection sees the tables as committed.
\<close>

definition connect :: "store \<Rightarrow> store" where
  "connect db = db\<lparr>product := committed_product db, file_log := committed_file_log db,
                    copied := committed_copied db\<rparr>"

text \<open>
  Modelled from the spec: the declaration of table \<^verbatim>\<open>product\<close> (create\_tables.sql) is
  not among the sources. By the spec, (symbol, currency, exchange) is unique in the
  table and a conflicting insert is ignored; \<^verbatim>\<open>DEFAULT\<close> gives \<^verbatim>\<open>unique_id\<close> the next
  value of a sequence, which PostgreSQL draws before it detects the conflict. The texts
  interpolated into the two statements on this table are taken as the store reads
  them.

  \<^verbatim>\<open>INSERT INTO product (unique_id, symbol, currency, name, exchange)
  VALUES (DEFAULT, symbol, currency, symbol_name, exchange) ON CONFLICT DO NOTHING\<close>
\<close>

definition insert_product_id :: "store \<Rightarrow> string \<Rightarrow> string \<Rightarrow> string \<Rightarrow> string \<Rightarrow> store" where
  "insert_product_id db symbol currency symbol_name exchange =
     (if \<exists>r \<in> set (product db).
           p_symbol r = symbol \<and> p_currency r = currency \<and> p_exchange r = exchange
      then db\<lparr>product_seq := product_seq db + 1\<rparr>
      else db\<lparr>product := product db @
                  [\<lparr>p_unique_id = product_seq db, p_symbol = symbol, p_currency = currency,
                    p_name = symbol_name, p_exchange = exchange\<rparr>],
                product_seq := product_seq db + 1\<rparr>)"

text \<open>
  \<^verbatim>\<open>populate_product_table(symbol, currency, exchange)\<close>, with the dataset
  \<^verbatim>\<open>h5[group + '/' + table]\<close> it reads as an argument. \<^verbatim>\<open>cur.fetchone()\<close> is the first
  row of the result or \<^verbatim>\<open>None\<close>; \<^verbatim>\<open>None[0]\<close> raises, and the bare \<^verbatim>\<open>except\<close> makes the
  identifier 0.
\<close>

definition populate_product_table :: "store \<Rightarrow> dataset \<Rightarrow> string \<Rightarrow> string \<Rightarrow> string \<Rightarrow> int" where
  "populate_product_table db ds symbol currency exchange =
     (if length ds > 0
      then (case filter (\<lambda>r. p_symbol r = symbol \<and> p_currency r = currency \<and> p_exchange r = exchange)
                   (product db) of
              [] \<Rightarrow> 0
            | r # rs \<Rightarrow> p_unique_id r)
      else 0)"

text \<open>
  PostgreSQL's \<^verbatim>\<open>text LIKE pattern\<close>: \<^verbatim>\<open>%\<close> matches any sequence of characters,
  \<^verbatim>\<open>_\<close> any one character, a backslash makes the character after it match itself
  (a pattern that ends in a lone backslash matches nothing here), any other character
  matches itself.
\<close>

fun like :: "string \<Rightarrow> string \<Rightarrow> bool" where
  "like [] s = (s = [])"
| "like (p # ps) [] = (p = CHR ''%'' \<and> like ps [])"
| "like (p # ps) (c # cs) =
     (if p = CHR ''%'' then like ps (c # cs) \<or> like (p # ps) cs
      else if p = CHR ''_'' then like ps cs
      else if p = CHR 0x5C then (case ps of [] \<Rightarrow> False | q # qs \<Rightarrow> q = c \<and> like qs cs)
      else p = c \<and> like ps cs)"

text \<open>
  A text interpolated between the quotes of a statement (\<^verbatim>\<open>'{}'\<close>), as PostgreSQL
  reads it: two single quotes in a row are one quote of the text, a backslash is a
  backslash. A single quote that is not doubled ends the text early, and the rest of the
  name is read as part of the statement: \<open>None\<close>, which the model takes for the syntax
  error that psycopg2 raises as ProgrammingError. A name whose rest makes another
  statement that still parses is outside the model; no property below is about a name
  with a single quote.
\<close>

fun sql_literal :: "string \<Rightarrow> string option" where
  "sql_literal [] = Some []"
| "sql_literal [c] = (if c = CHR 0x27 then None else Some [c])"
| "sql_literal (c # d # cs) =
     (if c = CHR 0x27
      then (if d = CHR 0x27 then map_option ((#) c) (sql_literal cs) else None)
      else map_option ((#) c) (sql_literal (d # cs)))"

section \<open>The module's loop\<close>

definition symbol_name_lookup :: "string \<rightharpoonup> string" where
  "symbol_name_lookup =
     [''BTC'' \<mapsto> ''Bitcoin'', ''ETH'' \<mapsto> ''Ethereum'', ''LTC'' \<mapsto> ''Litecoin'',
      ''XLM'' \<mapsto> ''Stellar'', ''OMG'' \<mapsto> ''OMG Network'', ''DASH'' \<mapsto> ''Dash'',
      ''EOS'' \<mapsto> ''EOS'']"

definition hdf_folder :: string where
  "hdf_folder = ''/srv/dev-disk-by-uuid-72faeb4b-1843-416e-b797-438a1f605024/websocket-scraper''"

text \<open>Python's \<^verbatim>\<open>s.split(c)\<close> for a separator of one character.\<close>

fun split_on :: "char \<Rightarrow> string \<Rightarrow> string list" where
  "split_on c [] = [[]]"
| "split_on c (x # xs) =
     (if x = c then [] # split_on c xs
      else (case split_on c xs of [] \<Rightarrow> [[x]] | p # ps \<Rightarrow> (x # p) # ps))"

text \<open>
  An opened file: its groups in the order of \<^verbatim>\<open>h5.keys()\<close>, each with its tables
  (name and dataset) in the order of iteration.
\<close>

type_synonym h5file = "(string \<times> (string \<times> dataset) list) list"

text \<open>
  Lines 204 to 210, the body of the loop over the tables of a group. The unpacking
  \<^verbatim>\<open>symbol, currency = table.split('_')\<close> raises ValueError unless there are two
  parts; \<^verbatim>\<open>symbol_name_lookup[symbol]\<close> raises KeyError for an unknown symbol.
\<close>

definition process_table :: "(cell \<Rightarrow> string) \<Rightarrow> string \<Rightarrow> string \<times> dataset \<Rightarrow> store \<Rightarrow> py_error + store" where
  "process_table str_of group_name entry db =
     (let table = fst entry; ds = snd entry;
          db1 = db\<lparr>stdout := stdout db @ [Loading table group_name]\<rparr>
      in case split_on CHR ''_'' table of
           [symbol, currency] \<Rightarrow>
             (case symbol_name_lookup symbol of
                None \<Rightarrow> Inl (KeyError symbol)
              | Some symbol_name \<Rightarrow>
                  (let db2 = insert_product_id db1 symbol currency symbol_name ''Coinbase Pro'';
                       product_id = populate_product_table db2 ds symbol currency ''Coinbase Pro''
                   in bind_err (assemble_data_as_string str_of (copied db2) product_id ds
                                  (''tick_data_'' @ group_name))
                        (\<lambda>cur. Inr ((conn_commit (db2\<lparr>copied := cur\<rparr>))
                                      \<lparr>stdout := stdout db2 @ [Time_taken]\<rparr>))))
         | _ \<Rightarrow> Inl ValueError)"

text \<open>
  Lines 186 to 214, the body of the loop over the files for a file that passes the
  test of line 185. \<open>h5\<close> is the opened file and \<open>now\<close> the text of \<^verbatim>\<open>datetime.now()\<close>.
  The \<^verbatim>\<open>SELECT\<close> of line 189 interpolates the file's name: it returns the rows of
  \<^verbatim>\<open>file_log\<close> whose filename is \<^verbatim>\<open>LIKE\<close> the pattern \<^verbatim>\<open>%\<close> followed by the name as
  the store reads it. The \<^verbatim>\<open>INSERT\<close> of line 198 interpolates the path of the file
  (\<^verbatim>\<open>filename.filename\<close>, the \<^verbatim>\<open>file_path\<close> of line 186). It is committed by the
  \<^verbatim>\<open>conn.commit()\<close> of the first table, if there is one.
\<close>

definition process_file :: "(cell \<Rightarrow> string) \<Rightarrow> string \<Rightarrow> h5file \<Rightarrow> string \<Rightarrow> store \<Rightarrow> py_error + store" where
  "process_file str_of file_in_folder h5 now db =
     (case sql_literal file_in_folder of
        None \<Rightarrow> Inl ProgrammingError
      | Some name \<Rightarrow>
          (case filter (\<lambda>row. like (''%'' @ name) (fst row)) (file_log db) of
             [] \<Rightarrow>
               (case sql_literal (hdf_folder @ ''/'' @ file_in_folder) of
                  None \<Rightarrow> Inl ProgrammingError
                | Some filename \<Rightarrow>
                    (let db1 = db\<lparr>file_log := file_log db @ [(filename, now)],
                                  stdout := stdout db @ [Processing file_in_folder]\<rparr>
                     in for_each (\<lambda>group_entry. for_each (process_table str_of (fst group_entry))
                                    (snd group_entry)) h5 db1))
           | filename_check # rest \<Rightarrow>
               Inr (db\<lparr>stdout := stdout db @
                          [Already_recorded (fst filename_check) (snd filename_check)]\<rparr>)))"

text \<open>Lines 184 and 185: the loop over the listing of the folder.\<close>

definition ingest_folder :: "(cell \<Rightarrow> string) \<Rightarrow> (string \<times> h5file \<times> string) list \<Rightarrow> store \<Rightarrow> py_error + store" where
  "ingest_folder str_of listing db =
     for_each (\<lambda>file db.
        if \<not> prefix ''.'' (fst file) \<and> suffix ''.h5'' (fst file)
        then process_file str_of (fst file) (fst (snd file)) (snd (snd file)) db
        else Inr db) listing db"

text \<open>
  One run of the script: it connects and works through the folder. The next run connects
  anew, and so starts from what this one committed.
\<close>

definition run_script :: "(cell \<Rightarrow> string) \<Rightarrow> (string \<times> h5file \<times> string) list \<Rightarrow> store \<Rightarrow> py_error + store" where
  "run_script str_of listing db = ingest_folder str_of listing (connect db)"

section \<open>Properties\<close>

subsection \<open>Helper facts\<close>

lemma map_err_Inr:
  "(\<And>x. x \<in> set xs \<Longrightarrow> f x = Inr (g x)) \<Longrightarrow> map_err f xs = Inr (map g xs)"
  by (induction xs) auto

lemma divide_total: "divide a b = Inr (if b = 0 then 0 else of_int a / of_int b)"
  by (simp add: divide_def py_truediv_def)

lemma chunk_counts_1500000: "chunk_counts 1500000 = [0, 1]"
  by (simp add: chunk_counts_def chunk_def py_round_def Let_def upt_rec)

lemma length_zip_star: "xss \<noteq> [] \<Longrightarrow> length (zip_star xss) = Min (length ` set xss)"
proof (induction xss rule: zip_star.induct)
  case 1
  then show ?case by simp
next
  case (2 xs)
  then show ?case by simp
next
  case (3 xs ys yss)
  then show ?case by (simp add: min_def)
qed

lemma nth_zip_star:
  "i < length (zip_star xss) \<Longrightarrow> zip_star xss ! i = map (\<lambda>xs. xs ! i) xss"
proof (induction xss arbitrary: i rule: zip_star.induct)
  case 1
  then show ?case by simp
next
  case (2 xs)
  then show ?case by simp
next
  case (3 xs ys yss)
  then show ?case by simp
qed

lemma zip_star_rows:
  "zip_star xss = map (\<lambda>i. map (\<lambda>xs. xs ! i) xss) [0 ..< length (zip_star xss)]"
  by (rule nth_equalityI) (simp_all add: nth_zip_star)

lemma join_terminated:
  "rows \<noteq> [] \<Longrightarrow> join sep rows @ sep = concat (map (\<lambda>r. r @ sep) rows)"
  by (induction sep rows rule: join.induct) simp_all

lemma bind_err_simps:
  "bind_err (Inr x) f = f x" "bind_err (Inl e) f = Inl e"
  by (simp_all add: bind_err_def)

lemma np_char_decode_eq:
  "np_char_decode xs =
     (if None \<in> set xs then Inl ValueError else Inr (map (\<lambda>b. StrC (the b)) xs))"
  unfolding np_char_decode_def by (induction xs) (auto split: option.splits)

lemma decode_or_nil_eq:
  "decode_or_nil column stop =
     Inr (if None \<in> set column then np_full stop (StrC nil_uuid)
          else map (\<lambda>b. StrC (the b)) column)"
  by (simp add: decode_or_nil_def np_char_decode_eq)

lemma np_vectorize_divide_scale:
  "np_vectorize_divide xs 100000000 =
     (if xs = [] then Inl ValueError else Inr (map (\<lambda>a. of_int a / 100000000) xs))"
proof -
  have "map_err (\<lambda>a. divide a 100000000) xs = Inr (map (\<lambda>a. of_int a / 100000000) xs)"
    by (rule map_err_Inr) (simp add: divide_total)
  then show ?thesis by (simp add: np_vectorize_divide_def np_vectorize_def)
qed

lemma np_vectorize_fromtimestamp:
  "np_vectorize fromtimestamp xs =
     (if xs = [] then Inl ValueError else Inr (map DatetimeC xs))"
proof -
  have "map_err fromtimestamp xs = Inr (map DatetimeC xs)"
    by (rule map_err_Inr) (simp add: fromtimestamp_def)
  then show ?thesis by (simp add: np_vectorize_def)
qed

lemma sublist_match:
  "\<not> sublist ''open'' ''tick_data_match''"
  "\<not> sublist ''done'' ''tick_data_match''"
  "sublist ''match'' ''tick_data_match''"
  "\<not> sublist ''change'' ''tick_data_match''"
  "\<not> sublist ''received'' ''tick_data_match''"
  by code_simp+

lemma gather_match_kind:
  "gather ds ''match'' product_id start stop env0 =
     (if py_slice ds start stop = [] \<or> None \<in> side_col ` set (py_slice ds start stop)
      then Inl ValueError
      else Inr (env0(
        Product_id_array \<mapsto> PArr (np_full stop (IntC product_id)),
        Timestamp_array \<mapsto> PArr (map (\<lambda>r. DatetimeC (of_int (time_col r) / 1000000))
                               (py_slice ds start stop)),
        Price_array \<mapsto> PArr (map price_col (py_slice ds start stop)),
        Side_array \<mapsto> PArr (map (\<lambda>r. StrC (the (side_col r))) (py_slice ds start stop)),
        Size_array \<mapsto> PArr (map (\<lambda>r. FloatC (of_int (size_col r) / 100000000))
                               (py_slice ds start stop)),
        Maker_order_id_array \<mapsto> PArr
           (if None \<in> maker_order_id_col ` set (py_slice ds start stop)
            then np_full stop (StrC nil_uuid)
            else map (\<lambda>r. StrC (the (maker_order_id_col r))) (py_slice ds start stop)),
        Taker_order_id_array \<mapsto> PArr
           (if None \<in> taker_order_id_col ` set (py_slice ds start stop)
            then np_full stop (StrC nil_uuid)
            else map (\<lambda>r. StrC (the (taker_order_id_col r))) (py_slice ds start stop)))))"
  by (simp add: gather_def gather_common_def gather_order_id_def gather_side_def
      gather_remaining_size_def gather_match_def gather_change_def gather_reason_def
      gather_order_type_def bind_err_simps np_char_decode_eq decode_or_nil_eq
      np_vectorize_divide_scale np_vectorize_fromtimestamp o_def fun_upd_twist)


lemma length_py_slice: "length (py_slice xs start stop) = min (stop - start) (length xs - start)"
  by (simp add: py_slice_def min_def)

lemma length_py_slice_le: "length (py_slice xs start stop) \<le> stop"
  by (simp add: length_py_slice)

lemma chunk_range_slice:
  "chunk_range (length ds) count = Some (start, stop) \<Longrightarrow> py_slice ds start stop \<noteq> []"
  by (auto simp: chunk_range_def py_slice_def chunk_def Let_def split: if_splits)

lemma csv_of_vars_arrays:
  "map env vs = map (\<lambda>a. Some (PArr a)) arrays \<Longrightarrow>
   csv_of_vars str_of env vs = Inr (arrays_to_CSV_string str_of arrays)"
proof -
  assume a: "map env vs = map (\<lambda>a. Some (PArr a)) arrays"
  have len: "length vs = length arrays" using a by (metis length_map)
  have 1: "map_err (read_var env) vs = Inr (map PArr arrays)"
    using a len
  proof (induction vs arbitrary: arrays)
    case Nil
    then show ?case by simp
  next
    case (Cons v vs)
    then obtain b bs where "arrays = b # bs" by (cases arrays) auto
    with Cons show ?case by (simp add: read_var_def)
  qed
  have 2: "map_err as_array (map PArr arrays) = Inr arrays"
    by (induction arrays) (simp_all add: as_array_def)
  show ?thesis by (simp add: csv_of_vars_def 1 2 bind_err_simps)
qed

lemma copy_sql_match:
  "copy_sql ''tick_data_match'' =
     Inr ''COPY tick_data_match (product_id, side, time, price, size, maker_order_id, taker_order_id) FROM STDIN WITH CSV HEADER''"
  by (simp add: copy_sql_def db_table_columns_def tuple_text_def)

lemma fill_sio_match:
  assumes "map env [Product_id_array, Side_array, Timestamp_array, Price_array, Size_array,
         Maker_order_id_array, Taker_order_id_array] = map (\<lambda>a. Some (PArr a)) arrays"
  shows "fill_sio str_of env ''tick_data_match'' = Inr (arrays_to_CSV_string str_of arrays)"
  by (simp add: fill_sio_def write_if_def sublist_match bind_err_simps
      csv_of_vars_arrays [OF assms])

lemmas gather_defs = gather_def gather_common_def gather_order_id_def gather_side_def
      gather_remaining_size_def gather_match_def gather_change_def gather_reason_def
      gather_order_type_def

lemma floor_half: "\<lfloor>1 / 2 :: rat\<rfloor> = 0"
  by (simp add: floor_eq_iff)

lemma chunk_counts_0: "chunk_counts 0 = []"
  by (simp add: chunk_counts_def py_round_def Let_def floor_half)

lemma py_round_ge_1: "1 / 2 < x \<Longrightarrow> 1 \<le> py_round x"
proof -
  assume x: "1 / 2 < x"
  then have f0: "0 \<le> \<lfloor>x\<rfloor>" by simp
  have lo: "\<lfloor>x\<rfloor> \<le> py_round x"
    by (simp add: py_round_def Let_def)
  show ?thesis
  proof (cases "\<lfloor>x\<rfloor> = 0")
    case True
    then have "1 / 2 < x - of_int \<lfloor>x\<rfloor>" using x by simp
    then have "py_round x = \<lfloor>x\<rfloor> + 1"
      by (simp add: py_round_def Let_def)
    with True show ?thesis by simp
  next
    case False
    with f0 have "1 \<le> \<lfloor>x\<rfloor>" by linarith
    with lo show ?thesis by linarith
  qed
qed

lemma chunk_counts_pos: "0 < n \<Longrightarrow> \<exists>rest. chunk_counts n = 0 # rest"
proof -
  assume n: "0 < n"
  have "(1 / 2 :: rat) < of_nat n / of_nat chunk + 1 / 2"
    using n by (simp add: chunk_def)
  then have "1 \<le> py_round (of_nat n / of_nat chunk + 1 / 2)" by (rule py_round_ge_1)
  then have "0 < nat (py_round (of_nat n / of_nat chunk + 1 / 2))" by simp
  then show ?thesis
    unfolding chunk_counts_def by (simp add: upt_conv_Cons)
qed

lemma chunk_range_first: "0 < n \<Longrightarrow> \<exists>stop. chunk_range n 0 = Some (0, stop)"
  by (simp add: chunk_range_def)

lemma gather_unknown:
  "g \<notin> set [''match'', ''open'', ''done'', ''change'', ''received''] \<Longrightarrow>
   gather ds g product_id start stop env = Inr env"
  by (simp add: gather_defs bind_err_simps)

lemma csv_of_vars_product_unbound:
  "csv_of_vars str_of locals0 (Product_id_array # vs) = Inl (UnboundLocalError Product_id_array)"
  by (simp add: csv_of_vars_def read_var_def locals0_def bind_err_simps)

lemma csv_of_vars_received_unbound:
  "csv_of_vars str_of locals0 [Order_id_array, Order_type_array, Side_array] =
     Inl (UnboundLocalError Order_type_array)"
  by (simp add: csv_of_vars_def read_var_def locals0_def bind_err_simps)

lemma fill_sio_locals0:
  "fill_sio str_of locals0 db_table =
     (if sublist ''open'' db_table \<or> sublist ''done'' db_table \<or> sublist ''match'' db_table
         \<or> sublist ''change'' db_table
      then Inl (UnboundLocalError Product_id_array)
      else if sublist ''received'' db_table then Inl (UnboundLocalError Order_type_array)
      else Inr [])"
  by (simp add: fill_sio_def write_if_def csv_of_vars_product_unbound
      csv_of_vars_received_unbound bind_err_simps)

lemma copy_sql_unknown:
  "g \<notin> set [''match'', ''open'', ''done'', ''change'', ''received''] \<Longrightarrow>
   copy_sql (''tick_data_'' @ g) = Inl (KeyError g)"
  by (simp add: copy_sql_def db_table_columns_def)

lemma product_insert_product_id:
  "product (insert_product_id db s c n e) =
     (if \<exists>r \<in> set (product db). p_symbol r = s \<and> p_currency r = c \<and> p_exchange r = e
      then product db
      else product db @ [\<lparr>p_unique_id = product_seq db, p_symbol = s, p_currency = c,
                           p_name = n, p_exchange = e\<rparr>])"
  by (auto simp: insert_product_id_def)

lemma filter_key_insert_product_id:
  "filter (\<lambda>r. p_symbol r = s \<and> p_currency r = c \<and> p_exchange r = e)
      (product (insert_product_id db s c n e)) =
     (if \<exists>r \<in> set (product db). p_symbol r = s \<and> p_currency r = c \<and> p_exchange r = e
      then filter (\<lambda>r. p_symbol r = s \<and> p_currency r = c \<and> p_exchange r = e) (product db)
      else [\<lparr>p_unique_id = product_seq db, p_symbol = s, p_currency = c,
              p_name = n, p_exchange = e\<rparr>])"
proof (cases "\<exists>r \<in> set (product db). p_symbol r = s \<and> p_currency r = c \<and> p_exchange r = e")
  case True
  then show ?thesis by (simp add: product_insert_product_id)
next
  case False
  then have "filter (\<lambda>r. p_symbol r = s \<and> p_currency r = c \<and> p_exchange r = e) (product db) = []"
    by (auto simp: filter_empty_conv)
  with False show ?thesis by (simp add: product_insert_product_id)
qed

lemma filter_key_nonempty:
  "filter (\<lambda>r. p_symbol r = s \<and> p_currency r = c \<and> p_exchange r = e)
      (product (insert_product_id db s c n e)) \<noteq> []"
  by (auto simp: filter_key_insert_product_id filter_empty_conv)

lemma insert_product_id_ids:
  assumes "0 \<notin> p_unique_id ` set (product db)" and "product_seq db \<noteq> 0"
  shows "0 \<notin> p_unique_id ` set (product (insert_product_id db s c n e))"
  using assms by (auto simp: product_insert_product_id)

lemma populate_nonzero:
  assumes ids: "0 \<notin> p_unique_id ` set (product db)" and seq: "product_seq db \<noteq> 0"
    and ds: "ds \<noteq> []"
  shows "populate_product_table (insert_product_id db s c n e) ds s c e \<noteq> 0"
proof -
  let ?key = "\<lambda>r. p_symbol r = s \<and> p_currency r = c \<and> p_exchange r = e"
  let ?db1 = "insert_product_id db s c n e"
  obtain r rs where f: "filter ?key (product ?db1) = r # rs"
    using filter_key_nonempty [of s c e db n] by (cases "filter ?key (product ?db1)") auto
  then have "r \<in> set (filter ?key (product ?db1))" by simp
  then have "r \<in> set (product ?db1)" by simp
  with insert_product_id_ids [OF ids seq, of s c n e] have "p_unique_id r \<noteq> 0"
    by (metis image_eqI)
  with f ds show ?thesis by (simp add: populate_product_table_def)
qed

lemma assemble_empty: "assemble_data_as_string str_of cur product_id [] db_table = Inr cur"
  by (simp add: assemble_data_as_string_def chunk_counts_0 bind_err_simps)

lemma gather_product_id:
  assumes "k \<in> set [''match'', ''open'', ''done'', ''change'']"
    and "gather ds k product_id start stop env0 = Inr env"
  shows "env Product_id_array = Some (PArr (np_full stop (IntC product_id)))"
proof -
  from assms(1) consider "k = ''match''" | "k = ''open''" | "k = ''done''" | "k = ''change''"
    by auto
  then show ?thesis
  proof cases
    case 1
    with assms(2) show ?thesis
      by (auto simp: gather_match_kind split: if_splits)
  next
    case 2
    with assms(2) show ?thesis
      by (auto simp: gather_defs bind_err_simps np_char_decode_eq decode_or_nil_eq
          np_vectorize_divide_scale np_vectorize_fromtimestamp o_def split: if_splits)
  next
    case 3
    with assms(2) show ?thesis
      by (auto simp: gather_defs bind_err_simps np_char_decode_eq decode_or_nil_eq
          np_vectorize_divide_scale np_vectorize_fromtimestamp o_def split: if_splits)
  next
    case 4
    with assms(2) show ?thesis
      by (auto simp: gather_defs bind_err_simps np_char_decode_eq decode_or_nil_eq
          np_vectorize_divide_scale np_vectorize_fromtimestamp o_def split: if_splits)
  qed
qed

lemma like_backslash_name:
  "\<not> like (''%'' @ CHR ''a'' # CHR 0x5C # ''b.h5'') (hdf_folder @ ''/'' @ CHR ''a'' # CHR 0x5C # ''b.h5'')"
  by (simp add: hdf_folder_def)

lemma py_round_1: "1 / 2 < x \<Longrightarrow> x < 3 / 2 \<Longrightarrow> py_round x = 1"
proof -
  assume lo: "1 / 2 < x" and hi: "x < 3 / 2"
  then have f0: "0 \<le> \<lfloor>x\<rfloor>" by simp
  have "\<lfloor>x\<rfloor> < 2" using hi by (simp add: floor_less_iff)
  with f0 consider "\<lfloor>x\<rfloor> = 0" | "\<lfloor>x\<rfloor> = 1" by linarith
  then show ?thesis
  proof cases
    case 1
    then have "1 / 2 < x - of_int \<lfloor>x\<rfloor>" using lo by simp
    with 1 show ?thesis by (simp add: py_round_def Let_def)
  next
    case 2
    then have "x - of_int \<lfloor>x\<rfloor> < 1 / 2" using hi by simp
    with 2 show ?thesis by (simp add: py_round_def Let_def)
  qed
qed

lemma chunk_counts_small: "0 < n \<Longrightarrow> n < 1000000 \<Longrightarrow> chunk_counts n = [0]"
proof -
  assume n: "0 < n" "n < 1000000"
  have "py_round (of_nat n / of_nat chunk + 1 / 2) = 1"
  proof (rule py_round_1)
    show "(1 / 2 :: rat) < of_nat n / of_nat chunk + 1 / 2"
      using n by (simp add: chunk_def)
    have "(of_nat n :: rat) < 1000000" using n(2) by simp
    then show "(of_nat n :: rat) / of_nat chunk + 1 / 2 < 3 / 2"
      by (simp add: chunk_def)
  qed
  then show ?thesis by (simp add: chunk_counts_def)
qed


lemma assemble_unknown_raises:
  assumes unknown: "g \<notin> set [''match'', ''open'', ''done'', ''change'', ''received'']"
    and ds: "ds \<noteq> []"
  shows "\<exists>e. assemble_data_as_string str_of cur product_id ds (''tick_data_'' @ g) = Inl e
                \<and> (e = KeyError g \<or> e = UnboundLocalError Product_id_array
                     \<or> e = UnboundLocalError Order_type_array)"
proof -
  from ds have n: "0 < length ds" by simp
  from chunk_counts_pos [OF n] obtain rest where c: "chunk_counts (length ds) = 0 # rest" ..
  from chunk_range_first [OF n] obtain stop where r: "chunk_range (length ds) 0 = Some (0, stop)" ..
  define db_table where "db_table = ''tick_data_'' @ g"
  have d: "drop 10 db_table = g" by (simp add: db_table_def)
  have s: "copy_sql db_table = Inl (KeyError g)"
    unfolding db_table_def by (rule copy_sql_unknown [OF unknown])
  have "\<exists>e. chunk_body str_of ds db_table product_id 0 (locals0, cur) = Inl e
     \<and> (e = KeyError g \<or> e = UnboundLocalError Product_id_array
                     \<or> e = UnboundLocalError Order_type_array)"
    by (simp add: chunk_body_def r d gather_unknown [OF unknown] fill_sio_locals0 s
        bind_err_simps)
  then have "\<exists>e. assemble_data_as_string str_of cur product_id ds db_table = Inl e
                \<and> (e = KeyError g \<or> e = UnboundLocalError Product_id_array
                     \<or> e = UnboundLocalError Order_type_array)"
    by (auto simp: assemble_data_as_string_def c bind_err_simps)
  then show ?thesis unfolding db_table_def .
qed

lemma process_table_zero_product_id:
  assumes ids: "0 \<notin> p_unique_id ` set (product db)" and seq: "product_seq db \<noteq> 0"
    and split: "split_on CHR ''_'' table = [s, c]"
    and name: "symbol_name_lookup s = Some n"
    and zero: "populate_product_table
         (insert_product_id (db\<lparr>stdout := stdout db @ [Loading table g]\<rparr>) s c n
            ''Coinbase Pro'') ds s c ''Coinbase Pro'' = 0"
  shows "\<exists>db'. process_table str_of g (table, ds) db = Inr db' \<and> copied db' = copied db"
proof -
  let ?db1 = "db\<lparr>stdout := stdout db @ [Loading table g]\<rparr>"
  have "0 \<notin> p_unique_id ` set (product ?db1)" "product_seq ?db1 \<noteq> 0"
    using ids seq by simp_all
  from populate_nonzero [OF this, of ds s c n "''Coinbase Pro''"] zero
  have ds: "ds = []" by blast
  have "copied (insert_product_id ?db1 s c n ''Coinbase Pro'') = copied db"
    by (simp add: insert_product_id_def)
  then show ?thesis
    by (simp add: process_table_def Let_def split name ds assemble_empty bind_err_simps
        conn_commit_def)
qed

lemma sublist_open:
  "sublist ''open'' ''tick_data_open''"
  "\<not> sublist ''done'' ''tick_data_open''"
  "\<not> sublist ''match'' ''tick_data_open''"
  "\<not> sublist ''change'' ''tick_data_open''"
  "\<not> sublist ''received'' ''tick_data_open''"
  by code_simp+

lemma sublist_done:
  "\<not> sublist ''open'' ''tick_data_done''"
  "sublist ''done'' ''tick_data_done''"
  "\<not> sublist ''match'' ''tick_data_done''"
  "\<not> sublist ''change'' ''tick_data_done''"
  "\<not> sublist ''received'' ''tick_data_done''"
  by code_simp+

lemma sublist_change:
  "\<not> sublist ''open'' ''tick_data_change''"
  "\<not> sublist ''done'' ''tick_data_change''"
  "\<not> sublist ''match'' ''tick_data_change''"
  "sublist ''change'' ''tick_data_change''"
  "\<not> sublist ''received'' ''tick_data_change''"
  by code_simp+

lemma copy_sql_open:
  "copy_sql ''tick_data_open'' =
     Inr ''COPY tick_data_open (product_id, side, time, price, remaining_size, order_id) FROM STDIN WITH CSV HEADER''"
  by (simp add: copy_sql_def db_table_columns_def tuple_text_def)

lemma copy_sql_done:
  "copy_sql ''tick_data_done'' =
     Inr ''COPY tick_data_done (product_id, side, time, price, remaining_size, reason, order_id) FROM STDIN WITH CSV HEADER''"
  by (simp add: copy_sql_def db_table_columns_def tuple_text_def)

lemma copy_sql_change:
  "copy_sql ''tick_data_change'' =
     Inr ''COPY tick_data_change (product_id, side, time, price, old_size, new_size, order_id) FROM STDIN WITH CSV HEADER''"
  by (simp add: copy_sql_def db_table_columns_def tuple_text_def)

lemma fill_sio_open:
  assumes "map env [Product_id_array, Side_array, Timestamp_array, Price_array,
         Remaining_size_array, Order_id_array] = map (\<lambda>a. Some (PArr a)) arrays"
  shows "fill_sio str_of env ''tick_data_open'' = Inr (arrays_to_CSV_string str_of arrays)"
  by (simp add: fill_sio_def write_if_def sublist_open bind_err_simps
      csv_of_vars_arrays [OF assms])

lemma fill_sio_done:
  assumes "map env [Product_id_array, Side_array, Timestamp_array, Price_array,
         Remaining_size_array, Reason_array, Order_id_array] = map (\<lambda>a. Some (PArr a)) arrays"
  shows "fill_sio str_of env ''tick_data_done'' = Inr (arrays_to_CSV_string str_of arrays)"
  by (simp add: fill_sio_def write_if_def sublist_done bind_err_simps
      csv_of_vars_arrays [OF assms])

lemma fill_sio_change:
  assumes "map env [Product_id_array, Side_array, Timestamp_array, Price_array,
         Old_size_array, New_size_array, Order_id_array] = map (\<lambda>a. Some (PArr a)) arrays"
  shows "fill_sio str_of env ''tick_data_change'' = Inr (arrays_to_CSV_string str_of arrays)"
  by (simp add: fill_sio_def write_if_def sublist_change bind_err_simps
      csv_of_vars_arrays [OF assms])

lemmas gather_simps = gather_defs bind_err_simps np_char_decode_eq decode_or_nil_eq
  np_vectorize_divide_scale np_vectorize_fromtimestamp o_def

lemma gather_match_arrays:
  assumes "py_slice ds start stop \<noteq> []" and "None \<notin> side_col ` set (py_slice ds start stop)"
  shows "\<exists>env. gather ds ''match'' product_id start stop env0 = Inr env
     \<and> map env [Product_id_array, Side_array, Timestamp_array, Price_array, Size_array,
          Maker_order_id_array, Taker_order_id_array] = map (\<lambda>a. Some (PArr a))
        [np_full stop (IntC product_id),
         map (\<lambda>r. StrC (the (side_col r))) (py_slice ds start stop),
         map (\<lambda>r. DatetimeC (of_int (time_col r) / 1000000)) (py_slice ds start stop),
         map price_col (py_slice ds start stop),
         map (\<lambda>r. FloatC (of_int (size_col r) / 100000000)) (py_slice ds start stop),
         if None \<in> maker_order_id_col ` set (py_slice ds start stop)
         then np_full stop (StrC nil_uuid)
         else map (\<lambda>r. StrC (the (maker_order_id_col r))) (py_slice ds start stop),
         if None \<in> taker_order_id_col ` set (py_slice ds start stop)
         then np_full stop (StrC nil_uuid)
         else map (\<lambda>r. StrC (the (taker_order_id_col r))) (py_slice ds start stop)]"
  using assms by (simp add: gather_simps)

lemma gather_open_arrays:
  assumes "py_slice ds start stop \<noteq> []" and "None \<notin> side_col ` set (py_slice ds start stop)"
  shows "\<exists>env. gather ds ''open'' product_id start stop env0 = Inr env
     \<and> map env [Product_id_array, Side_array, Timestamp_array, Price_array,
          Remaining_size_array, Order_id_array] = map (\<lambda>a. Some (PArr a))
        [np_full stop (IntC product_id),
         map (\<lambda>r. StrC (the (side_col r))) (py_slice ds start stop),
         map (\<lambda>r. DatetimeC (of_int (time_col r) / 1000000)) (py_slice ds start stop),
         map price_col (py_slice ds start stop),
         map (\<lambda>r. FloatC (of_int (remaining_size_col r) / 100000000)) (py_slice ds start stop),
         if None \<in> order_id_col ` set (py_slice ds start stop)
         then np_full stop (StrC nil_uuid)
         else map (\<lambda>r. StrC (the (order_id_col r))) (py_slice ds start stop)]"
  using assms by (simp add: gather_simps)

lemma gather_done_arrays:
  assumes "py_slice ds start stop \<noteq> []" and "None \<notin> side_col ` set (py_slice ds start stop)"
    and "None \<notin> reason_col ` set (py_slice ds start stop)"
  shows "\<exists>env. gather ds ''done'' product_id start stop env0 = Inr env
     \<and> map env [Product_id_array, Side_array, Timestamp_array, Price_array,
          Remaining_size_array, Reason_array, Order_id_array] = map (\<lambda>a. Some (PArr a))
        [np_full stop (IntC product_id),
         map (\<lambda>r. StrC (the (side_col r))) (py_slice ds start stop),
         map (\<lambda>r. DatetimeC (of_int (time_col r) / 1000000)) (py_slice ds start stop),
         map price_col (py_slice ds start stop),
         map (\<lambda>r. FloatC (of_int (remaining_size_col r) / 100000000)) (py_slice ds start stop),
         map (\<lambda>r. StrC (the (reason_col r))) (py_slice ds start stop),
         if None \<in> order_id_col ` set (py_slice ds start stop)
         then np_full stop (StrC nil_uuid)
         else map (\<lambda>r. StrC (the (order_id_col r))) (py_slice ds start stop)]"
  using assms by (simp add: gather_simps)

lemma gather_change_arrays:
  assumes "py_slice ds start stop \<noteq> []" and "None \<notin> side_col ` set (py_slice ds start stop)"
  shows "\<exists>env. gather ds ''change'' product_id start stop env0 = Inr env
     \<and> map env [Product_id_array, Side_array, Timestamp_array, Price_array,
          Old_size_array, New_size_array, Order_id_array] = map (\<lambda>a. Some (PArr a))
        [np_full stop (IntC product_id),
         map (\<lambda>r. StrC (the (side_col r))) (py_slice ds start stop),
         map (\<lambda>r. DatetimeC (of_int (time_col r) / 1000000)) (py_slice ds start stop),
         map price_col (py_slice ds start stop),
         map (\<lambda>r. FloatC (of_int (old_size_col r) / 100000000)) (py_slice ds start stop),
         map (\<lambda>r. FloatC (of_int (new_size_col r) / 100000000)) (py_slice ds start stop),
         if None \<in> order_id_col ` set (py_slice ds start stop)
         then np_full stop (StrC nil_uuid)
         else map (\<lambda>r. StrC (the (order_id_col r))) (py_slice ds start stop)]"
  using assms by (simp add: gather_simps)

lemma zip_star_slice_rows:
  assumes ne: "arrays \<noteq> []"
    and ge: "\<And>a. a \<in> set arrays \<Longrightarrow> length sl \<le> length a"
    and eq: "\<exists>a \<in> set arrays. length a = length sl"
    and cells: "\<And>i. i < length sl \<Longrightarrow> map (\<lambda>a. a ! i) arrays = cells (sl ! i)"
  shows "zip_star arrays = map cells sl"
proof -
  have "Min (length ` set arrays) = length sl"
  proof (rule Min_eqI)
    show "finite (length ` set arrays)" by simp
    show "length sl \<le> y" if "y \<in> length ` set arrays" for y
      using that ge by auto
    show "length sl \<in> length ` set arrays"
      using eq by (metis image_eqI)
  qed
  then have len: "length (zip_star arrays) = length sl"
    using ne by (simp add: length_zip_star)
  show ?thesis
  proof (rule nth_equalityI)
    show "length (zip_star arrays) = length (map cells sl)" using len by simp
    show "zip_star arrays ! i = map cells sl ! i" if "i < length (zip_star arrays)" for i
      using that len cells [of i] by (simp add: nth_zip_star)
  qed
qed

lemma csv_of_rows:
  "zip_star arrays = map cells sl \<Longrightarrow>
   arrays_to_CSV_string str_of arrays =
     join [CHR 0x0A] (map (\<lambda>r. join '','' (map str_of (cells r))) sl)"
  by (simp add: arrays_to_CSV_string_def o_def)

lemma chunk_body_emits:
  assumes "chunk_range (length ds) count = Some (start, stop)"
    and "gather ds (drop 10 db_table) product_id start stop env0 = Inr env"
    and "fill_sio str_of env db_table = Inr text"
    and "copy_sql db_table = Inr sql"
  shows "chunk_body str_of ds db_table product_id count (env0, cur) =
           Inr (env, cur @ [(sql, text)])"
  using assms by (simp add: chunk_body_def bind_err_simps copy_expert_def)

lemma chunk_body_match_text:
  assumes range: "chunk_range (length ds) count = Some (start, stop)"
    and side: "None \<notin> side_col ` set (py_slice ds start stop)"
  shows "bind_err (chunk_body str_of ds ''tick_data_match'' product_id count (env0, cur))
       (\<lambda>s. Inr (snd s)) =
     Inr (cur @ [(''COPY tick_data_match (product_id, side, time, price, size, maker_order_id, taker_order_id) FROM STDIN WITH CSV HEADER'',
         join [CHR 0x0A] (map (\<lambda>r. join '','' (map str_of
             [IntC product_id,
              StrC (the (side_col r)),
              DatetimeC (of_int (time_col r) / 1000000),
              price_col r,
              FloatC (of_int (size_col r) / 100000000),
              StrC (if None \<in> maker_order_id_col ` set (py_slice ds start stop) then nil_uuid
                 else the (maker_order_id_col r)),
              StrC (if None \<in> taker_order_id_col ` set (py_slice ds start stop) then nil_uuid
                 else the (taker_order_id_col r))])) (py_slice ds start stop)))])"
proof -
  define sl where "sl = py_slice ds start stop"
  define arrays where "arrays =
     [np_full stop (IntC product_id),
      map (\<lambda>r. StrC (the (side_col r))) sl,
      map (\<lambda>r. DatetimeC (of_int (time_col r) / 1000000)) sl,
      map price_col sl,
      map (\<lambda>r. FloatC (of_int (size_col r) / 100000000)) sl,
      (if None \<in> maker_order_id_col ` set sl then np_full stop (StrC nil_uuid)
        else map (\<lambda>r. StrC (the (maker_order_id_col r))) sl),
      (if None \<in> taker_order_id_col ` set sl then np_full stop (StrC nil_uuid)
        else map (\<lambda>r. StrC (the (taker_order_id_col r))) sl)]"
  define cells where "cells = (\<lambda>r :: raw_row.
     [IntC product_id,
              StrC (the (side_col r)),
              DatetimeC (of_int (time_col r) / 1000000),
              price_col r,
              FloatC (of_int (size_col r) / 100000000),
              StrC (if None \<in> maker_order_id_col ` set sl then nil_uuid
                 else the (maker_order_id_col r)),
              StrC (if None \<in> taker_order_id_col ` set sl then nil_uuid
                 else the (taker_order_id_col r))])"
  have ne: "py_slice ds start stop \<noteq> []"
    by (rule chunk_range_slice [OF range])
  have le: "length sl \<le> stop"
    by (simp add: sl_def length_py_slice_le)
  from gather_match_arrays [OF ne side, of product_id env0]
  obtain env where g: "gather ds ''match'' product_id start stop env0 = Inr env"
    and m: "map env [Product_id_array, Side_array, Timestamp_array, Price_array, Size_array,
          Maker_order_id_array, Taker_order_id_array] = map (\<lambda>a. Some (PArr a)) arrays"
    unfolding arrays_def sl_def by blast
  from m have vars: "fill_sio str_of env ''tick_data_match'' = Inr (arrays_to_CSV_string str_of arrays)"
    by (rule fill_sio_match)
  have rows: "zip_star arrays = map cells sl"
  proof (rule zip_star_slice_rows)
    show "arrays \<noteq> []" by (simp add: arrays_def)
    show "length sl \<le> length a" if "a \<in> set arrays" for a
      using that le by (auto simp: arrays_def np_full_def)
    show "\<exists>a\<in>set arrays. length a = length sl"
      by (rule bexI [of _ "map price_col sl"]) (simp_all add: arrays_def)
    show "map (\<lambda>a. a ! i) arrays = cells (sl ! i)" if "i < length sl" for i
      using that le by (auto simp: arrays_def cells_def np_full_def)
  qed
  have g': "gather ds (drop 10 ''tick_data_match'') product_id start stop env0 = Inr env"
    using g by simp
  from chunk_body_emits [OF range g' vars copy_sql_match, of cur]
  show ?thesis
    by (simp add: bind_err_simps csv_of_rows [OF rows] sl_def cells_def)
qed

lemma chunk_body_open_text:
  assumes range: "chunk_range (length ds) count = Some (start, stop)"
    and side: "None \<notin> side_col ` set (py_slice ds start stop)"
  shows "bind_err (chunk_body str_of ds ''tick_data_open'' product_id count (env0, cur))
       (\<lambda>s. Inr (snd s)) =
     Inr (cur @ [(''COPY tick_data_open (product_id, side, time, price, remaining_size, order_id) FROM STDIN WITH CSV HEADER'',
         join [CHR 0x0A] (map (\<lambda>r. join '','' (map str_of
             [IntC product_id,
              StrC (the (side_col r)),
              DatetimeC (of_int (time_col r) / 1000000),
              price_col r,
              FloatC (of_int (remaining_size_col r) / 100000000),
              StrC (if None \<in> order_id_col ` set (py_slice ds start stop) then nil_uuid else the (order_id_col r))])) (py_slice ds start stop)))])"
proof -
  define sl where "sl = py_slice ds start stop"
  define arrays where "arrays =
     [np_full stop (IntC product_id),
      map (\<lambda>r. StrC (the (side_col r))) sl,
      map (\<lambda>r. DatetimeC (of_int (time_col r) / 1000000)) sl,
      map price_col sl,
      map (\<lambda>r. FloatC (of_int (remaining_size_col r) / 100000000)) sl,
      (if None \<in> order_id_col ` set sl then np_full stop (StrC nil_uuid)
        else map (\<lambda>r. StrC (the (order_id_col r))) sl)]"
  define cells where "cells = (\<lambda>r :: raw_row.
     [IntC product_id,
              StrC (the (side_col r)),
              DatetimeC (of_int (time_col r) / 1000000),
              price_col r,
              FloatC (of_int (remaining_size_col r) / 100000000),
              StrC (if None \<in> order_id_col ` set sl then nil_uuid else the (order_id_col r))])"
  have ne: "py_slice ds start stop \<noteq> []"
    by (rule chunk_range_slice [OF range])
  have le: "length sl \<le> stop"
    by (simp add: sl_def length_py_slice_le)
  from gather_open_arrays [OF ne side, of product_id env0]
  obtain env where g: "gather ds ''open'' product_id start stop env0 = Inr env"
    and m: "map env [Product_id_array, Side_array, Timestamp_array, Price_array,
          Remaining_size_array, Order_id_array] = map (\<lambda>a. Some (PArr a)) arrays"
    unfolding arrays_def sl_def by blast
  from m have vars: "fill_sio str_of env ''tick_data_open'' = Inr (arrays_to_CSV_string str_of arrays)"
    by (rule fill_sio_open)
  have rows: "zip_star arrays = map cells sl"
  proof (rule zip_star_slice_rows)
    show "arrays \<noteq> []" by (simp add: arrays_def)
    show "length sl \<le> length a" if "a \<in> set arrays" for a
      using that le by (auto simp: arrays_def np_full_def)
    show "\<exists>a\<in>set arrays. length a = length sl"
      by (rule bexI [of _ "map price_col sl"]) (simp_all add: arrays_def)
    show "map (\<lambda>a. a ! i) arrays = cells (sl ! i)" if "i < length sl" for i
      using that le by (auto simp: arrays_def cells_def np_full_def)
  qed
  have g': "gather ds (drop 10 ''tick_data_open'') product_id start stop env0 = Inr env"
    using g by simp
  from chunk_body_emits [OF range g' vars copy_sql_open, of cur]
  show ?thesis
    by (simp add: bind_err_simps csv_of_rows [OF rows] sl_def cells_def)
qed

lemma chunk_body_done_text:
  assumes range: "chunk_range (length ds) count = Some (start, stop)"
    and side: "None \<notin> side_col ` set (py_slice ds start stop)"
    and reason: "None \<notin> reason_col ` set (py_slice ds start stop)"
  shows "bind_err (chunk_body str_of ds ''tick_data_done'' product_id count (env0, cur))
       (\<lambda>s. Inr (snd s)) =
     Inr (cur @ [(''COPY tick_data_done (product_id, side, time, price, remaining_size, reason, order_id) FROM STDIN WITH CSV HEADER'',
         join [CHR 0x0A] (map (\<lambda>r. join '','' (map str_of
             [IntC product_id,
              StrC (the (side_col r)),
              DatetimeC (of_int (time_col r) / 1000000),
              price_col r,
              FloatC (of_int (remaining_size_col r) / 100000000),
              StrC (the (reason_col r)),
              StrC (if None \<in> order_id_col ` set (py_slice ds start stop) then nil_uuid else the (order_id_col r))])) (py_slice ds start stop)))])"
proof -
  define sl where "sl = py_slice ds start stop"
  define arrays where "arrays =
     [np_full stop (IntC product_id),
      map (\<lambda>r. StrC (the (side_col r))) sl,
      map (\<lambda>r. DatetimeC (of_int (time_col r) / 1000000)) sl,
      map price_col sl,
      map (\<lambda>r. FloatC (of_int (remaining_size_col r) / 100000000)) sl,
      map (\<lambda>r. StrC (the (reason_col r))) sl,
      (if None \<in> order_id_col ` set sl then np_full stop (StrC nil_uuid)
        else map (\<lambda>r. StrC (the (order_id_col r))) sl)]"
  define cells where "cells = (\<lambda>r :: raw_row.
     [IntC product_id,
              StrC (the (side_col r)),
              DatetimeC (of_int (time_col r) / 1000000),
              price_col r,
              FloatC (of_int (remaining_size_col r) / 100000000),
              StrC (the (reason_col r)),
              StrC (if None \<in> order_id_col ` set sl then nil_uuid else the (order_id_col r))])"
  have ne: "py_slice ds start stop \<noteq> []"
    by (rule chunk_range_slice [OF range])
  have le: "length sl \<le> stop"
    by (simp add: sl_def length_py_slice_le)
  from gather_done_arrays [OF ne side reason, of product_id env0]
  obtain env where g: "gather ds ''done'' product_id start stop env0 = Inr env"
    and m: "map env [Product_id_array, Side_array, Timestamp_array, Price_array,
          Remaining_size_array, Reason_array, Order_id_array] = map (\<lambda>a. Some (PArr a)) arrays"
    unfolding arrays_def sl_def by blast
  from m have vars: "fill_sio str_of env ''tick_data_done'' = Inr (arrays_to_CSV_string str_of arrays)"
    by (rule fill_sio_done)
  have rows: "zip_star arrays = map cells sl"
  proof (rule zip_star_slice_rows)
    show "arrays \<noteq> []" by (simp add: arrays_def)
    show "length sl \<le> length a" if "a \<in> set arrays" for a
      using that le by (auto simp: arrays_def np_full_def)
    show "\<exists>a\<in>set arrays. length a = length sl"
      by (rule bexI [of _ "map price_col sl"]) (simp_all add: arrays_def)
    show "map (\<lambda>a. a ! i) arrays = cells (sl ! i)" if "i < length sl" for i
      using that le by (auto simp: arrays_def cells_def np_full_def)
  qed
  have g': "gather ds (drop 10 ''tick_data_done'') product_id start stop env0 = Inr env"
    using g by simp
  from chunk_body_emits [OF range g' vars copy_sql_done, of cur]
  show ?thesis
    by (simp add: bind_err_simps csv_of_rows [OF rows] sl_def cells_def)
qed

lemma chunk_body_change_text:
  assumes range: "chunk_range (length ds) count = Some (start, stop)"
    and side: "None \<notin> side_col ` set (py_slice ds start stop)"
  shows "bind_err (chunk_body str_of ds ''tick_data_change'' product_id count (env0, cur))
       (\<lambda>s. Inr (snd s)) =
     Inr (cur @ [(''COPY tick_data_change (product_id, side, time, price, old_size, new_size, order_id) FROM STDIN WITH CSV HEADER'',
         join [CHR 0x0A] (map (\<lambda>r. join '','' (map str_of
             [IntC product_id,
              StrC (the (side_col r)),
              DatetimeC (of_int (time_col r) / 1000000),
              price_col r,
              FloatC (of_int (old_size_col r) / 100000000),
              FloatC (of_int (new_size_col r) / 100000000),
              StrC (if None \<in> order_id_col ` set (py_slice ds start stop) then nil_uuid else the (order_id_col r))])) (py_slice ds start stop)))])"
proof -
  define sl where "sl = py_slice ds start stop"
  define arrays where "arrays =
     [np_full stop (IntC product_id),
      map (\<lambda>r. StrC (the (side_col r))) sl,
      map (\<lambda>r. DatetimeC (of_int (time_col r) / 1000000)) sl,
      map price_col sl,
      map (\<lambda>r. FloatC (of_int (old_size_col r) / 100000000)) sl,
      map (\<lambda>r. FloatC (of_int (new_size_col r) / 100000000)) sl,
      (if None \<in> order_id_col ` set sl then np_full stop (StrC nil_uuid)
        else map (\<lambda>r. StrC (the (order_id_col r))) sl)]"
  define cells where "cells = (\<lambda>r :: raw_row.
     [IntC product_id,
              StrC (the (side_col r)),
              DatetimeC (of_int (time_col r) / 1000000),
              price_col r,
              FloatC (of_int (old_size_col r) / 100000000),
              FloatC (of_int (new_size_col r) / 100000000),
              StrC (if None \<in> order_id_col ` set sl then nil_uuid else the (order_id_col r))])"
  have ne: "py_slice ds start stop \<noteq> []"
    by (rule chunk_range_slice [OF range])
  have le: "length sl \<le> stop"
    by (simp add: sl_def length_py_slice_le)
  from gather_change_arrays [OF ne side, of product_id env0]
  obtain env where g: "gather ds ''change'' product_id start stop env0 = Inr env"
    and m: "map env [Product_id_array, Side_array, Timestamp_array, Price_array,
          Old_size_array, New_size_array, Order_id_array] = map (\<lambda>a. Some (PArr a)) arrays"
    unfolding arrays_def sl_def by blast
  from m have vars: "fill_sio str_of env ''tick_data_change'' = Inr (arrays_to_CSV_string str_of arrays)"
    by (rule fill_sio_change)
  have rows: "zip_star arrays = map cells sl"
  proof (rule zip_star_slice_rows)
    show "arrays \<noteq> []" by (simp add: arrays_def)
    show "length sl \<le> length a" if "a \<in> set arrays" for a
      using that le by (auto simp: arrays_def np_full_def)
    show "\<exists>a\<in>set arrays. length a = length sl"
      by (rule bexI [of _ "map price_col sl"]) (simp_all add: arrays_def)
    show "map (\<lambda>a. a ! i) arrays = cells (sl ! i)" if "i < length sl" for i
      using that le by (auto simp: arrays_def cells_def np_full_def)
  qed
  have g': "gather ds (drop 10 ''tick_data_change'') product_id start stop env0 = Inr env"
    using g by simp
  from chunk_body_emits [OF range g' vars copy_sql_change, of cur]
  show ?thesis
    by (simp add: bind_err_simps csv_of_rows [OF rows] sl_def cells_def)
qed

lemma bind_err_Inr: "bind_err m Inr = m"
  by (simp add: bind_err_def split: sum.splits)

lemma for_each_Nil: "for_each body [] = Inr"
  by (rule ext) simp

lemma assemble_single_chunk:
  assumes "0 < length ds" and "length ds < 1000000"
  shows "assemble_data_as_string str_of cur product_id ds db_table =
     bind_err (chunk_body str_of ds db_table product_id 0 (locals0, cur)) (\<lambda>s. Inr (snd s))"
  using assms
  by (simp add: assemble_data_as_string_def chunk_counts_small for_each_Nil bind_err_Inr)

lemma assemble_one_match_row:
  "assemble_data_as_string
      (\<lambda>c. case c of IntC i \<Rightarrow> ''1'' | FloatC q \<Rightarrow> ''1.0'' | StrC s \<Rightarrow> s
          | DatetimeC t \<Rightarrow> ''1970-01-01 00:00:00'')
      cur 1
      [\<lparr>side_col = Some ''buy'', time_col = 0,
       price_col = IntC 1, size_col = 100000000, remaining_size_col = 0, old_size_col = 0,
       new_size_col = 0, order_id_col = None, maker_order_id_col = Some ''m'',
       taker_order_id_col = Some ''t'', reason_col = None, order_type_col = None\<rparr>]
      ''tick_data_match''
   = Inr (cur @ [(''COPY tick_data_match (product_id, side, time, price, size, maker_order_id, taker_order_id) FROM STDIN WITH CSV HEADER'',
              ''1,buy,1970-01-01 00:00:00,1,1.0,m,t'')])"
  using chunk_body_match_text [of "[\<lparr>side_col = Some ''buy'', time_col = 0,
       price_col = IntC 1, size_col = 100000000, remaining_size_col = 0, old_size_col = 0,
       new_size_col = 0, order_id_col = None, maker_order_id_col = Some ''m'',
       taker_order_id_col = Some ''t'', reason_col = None, order_type_col = None\<rparr>]" 0 0 1
      "(\<lambda>c. case c of IntC i \<Rightarrow> ''1'' | FloatC q \<Rightarrow> ''1.0'' | StrC s \<Rightarrow> s
          | DatetimeC t \<Rightarrow> ''1970-01-01 00:00:00'')" 1 locals0 cur]
  by (simp add: assemble_single_chunk chunk_range_def chunk_def py_slice_def)

lemma eligible_backslash_name:
  "\<not> prefix ''.'' (CHR ''a'' # CHR 0x5C # ''b.h5'')" "suffix ''.h5'' (CHR ''a'' # CHR 0x5C # ''b.h5'')"
  by (simp_all add: suffix_to_prefix)

lemma run_backslash_name_first:
  "run_script
      (\<lambda>c. case c of IntC i \<Rightarrow> ''1'' | FloatC q \<Rightarrow> ''1.0'' | StrC s \<Rightarrow> s
          | DatetimeC t \<Rightarrow> ''1970-01-01 00:00:00'')
      [(CHR ''a'' # CHR 0x5C # ''b.h5'', [(''match'', [(''BTC_USD'', [\<lparr>side_col = Some ''buy'', time_col = 0,
       price_col = IntC 1, size_col = 100000000, remaining_size_col = 0, old_size_col = 0,
       new_size_col = 0, order_id_col = None, maker_order_id_col = Some ''m'',
       taker_order_id_col = Some ''t'', reason_col = None, order_type_col = None\<rparr>])])], ''t1'')]
      \<lparr>product = [], product_seq = 1, file_log = [], copied = [], stdout = [],
       committed_product = [], committed_file_log = [], committed_copied = []\<rparr>
   = Inr \<lparr>product = [\<lparr>p_unique_id = 1, p_symbol = ''BTC'', p_currency = ''USD'', p_name = ''Bitcoin'',
          p_exchange = ''Coinbase Pro''\<rparr>],
       product_seq = 2,
       file_log = [(hdf_folder @ ''/'' @ CHR ''a'' # CHR 0x5C # ''b.h5'', ''t1'')],
       copied = [(''COPY tick_data_match (product_id, side, time, price, size, maker_order_id, taker_order_id) FROM STDIN WITH CSV HEADER'',
           ''1,buy,1970-01-01 00:00:00,1,1.0,m,t'')],
       stdout = [Processing (CHR ''a'' # CHR 0x5C # ''b.h5''), Loading ''BTC_USD'' ''match'', Time_taken],
       committed_product = [\<lparr>p_unique_id = 1, p_symbol = ''BTC'', p_currency = ''USD'', p_name = ''Bitcoin'',
          p_exchange = ''Coinbase Pro''\<rparr>],
       committed_file_log = [(hdf_folder @ ''/'' @ CHR ''a'' # CHR 0x5C # ''b.h5'', ''t1'')],
       committed_copied = [(''COPY tick_data_match (product_id, side, time, price, size, maker_order_id, taker_order_id) FROM STDIN WITH CSV HEADER'',
           ''1,buy,1970-01-01 00:00:00,1,1.0,m,t'')]\<rparr>"
  by (simp add: run_script_def connect_def ingest_folder_def eligible_backslash_name
      process_file_def hdf_folder_def process_table_def symbol_name_lookup_def
      insert_product_id_def populate_product_table_def assemble_one_match_row
      conn_commit_def bind_err_simps Let_def)

lemma run_backslash_name_second:
  "run_script
      (\<lambda>c. case c of IntC i \<Rightarrow> ''1'' | FloatC q \<Rightarrow> ''1.0'' | StrC s \<Rightarrow> s
          | DatetimeC t \<Rightarrow> ''1970-01-01 00:00:00'')
      [(CHR ''a'' # CHR 0x5C # ''b.h5'', [(''match'', [(''BTC_USD'', [\<lparr>side_col = Some ''buy'', time_col = 0,
       price_col = IntC 1, size_col = 100000000, remaining_size_col = 0, old_size_col = 0,
       new_size_col = 0, order_id_col = None, maker_order_id_col = Some ''m'',
       taker_order_id_col = Some ''t'', reason_col = None, order_type_col = None\<rparr>])])], ''t2'')]
      \<lparr>product = [\<lparr>p_unique_id = 1, p_symbol = ''BTC'', p_currency = ''USD'', p_name = ''Bitcoin'',
          p_exchange = ''Coinbase Pro''\<rparr>],
       product_seq = 2,
       file_log = [(hdf_folder @ ''/'' @ CHR ''a'' # CHR 0x5C # ''b.h5'', ''t1'')],
       copied = [(''COPY tick_data_match (product_id, side, time, price, size, maker_order_id, taker_order_id) FROM STDIN WITH CSV HEADER'',
           ''1,buy,1970-01-01 00:00:00,1,1.0,m,t'')],
       stdout = [Processing (CHR ''a'' # CHR 0x5C # ''b.h5''), Loading ''BTC_USD'' ''match'', Time_taken],
       committed_product = [\<lparr>p_unique_id = 1, p_symbol = ''BTC'', p_currency = ''USD'', p_name = ''Bitcoin'',
          p_exchange = ''Coinbase Pro''\<rparr>],
       committed_file_log = [(hdf_folder @ ''/'' @ CHR ''a'' # CHR 0x5C # ''b.h5'', ''t1'')],
       committed_copied = [(''COPY tick_data_match (product_id, side, time, price, size, maker_order_id, taker_order_id) FROM STDIN WITH CSV HEADER'',
           ''1,buy,1970-01-01 00:00:00,1,1.0,m,t'')]\<rparr>
   = Inr \<lparr>product = [\<lparr>p_unique_id = 1, p_symbol = ''BTC'', p_currency = ''USD'', p_name = ''Bitcoin'',
          p_exchange = ''Coinbase Pro''\<rparr>],
       product_seq = 3,
       file_log = [(hdf_folder @ ''/'' @ CHR ''a'' # CHR 0x5C # ''b.h5'', ''t1''),
          (hdf_folder @ ''/'' @ CHR ''a'' # CHR 0x5C # ''b.h5'', ''t2'')],
       copied = [(''COPY tick_data_match (product_id, side, time, price, size, maker_order_id, taker_order_id) FROM STDIN WITH CSV HEADER'',
           ''1,buy,1970-01-01 00:00:00,1,1.0,m,t''),
          (''COPY tick_data_match (product_id, side, time, price, size, maker_order_id, taker_order_id) FROM STDIN WITH CSV HEADER'',
           ''1,buy,1970-01-01 00:00:00,1,1.0,m,t'')],
       stdout = [Processing (CHR ''a'' # CHR 0x5C # ''b.h5''), Loading ''BTC_USD'' ''match'', Time_taken,
          Processing (CHR ''a'' # CHR 0x5C # ''b.h5''), Loading ''BTC_USD'' ''match'', Time_taken],
       committed_product = [\<lparr>p_unique_id = 1, p_symbol = ''BTC'', p_currency = ''USD'', p_name = ''Bitcoin'',
          p_exchange = ''Coinbase Pro''\<rparr>],
       committed_file_log = [(hdf_folder @ ''/'' @ CHR ''a'' # CHR 0x5C # ''b.h5'', ''t1''),
          (hdf_folder @ ''/'' @ CHR ''a'' # CHR 0x5C # ''b.h5'', ''t2'')],
       committed_copied = [(''COPY tick_data_match (product_id, side, time, price, size, maker_order_id, taker_order_id) FROM STDIN WITH CSV HEADER'',
           ''1,buy,1970-01-01 00:00:00,1,1.0,m,t''),
          (''COPY tick_data_match (product_id, side, time, price, size, maker_order_id, taker_order_id) FROM STDIN WITH CSV HEADER'',
           ''1,buy,1970-01-01 00:00:00,1,1.0,m,t'')]\<rparr>"
  by (simp add: run_script_def connect_def ingest_folder_def eligible_backslash_name
      process_file_def hdf_folder_def process_table_def symbol_name_lookup_def
      insert_product_id_def populate_product_table_def assemble_one_match_row
      conn_commit_def bind_err_simps Let_def)

lemma run_no_table_not_committed:
  "bind_err (run_script str_of [(''a.h5'', [], ''t1'')]
       \<lparr>product = [], product_seq = 1, file_log = [], copied = [], stdout = [],
         committed_product = [], committed_file_log = [], committed_copied = []\<rparr>)
     (\<lambda>db. Inr (file_log db, committed_file_log db, stdout db))
   = Inr ([(hdf_folder @ ''/a.h5'', ''t1'')], [], [Processing ''a.h5''])"
  by (simp add: run_script_def connect_def ingest_folder_def suffix_to_prefix
      process_file_def hdf_folder_def bind_err_simps Let_def)

subsection \<open>Claims\<close>

text \<open>
  C1. The claim: the \<open>(start, end)\<close> ranges of the chunking loop cover exactly
  \<open>[0, R)\<close> and none extends past \<open>R\<close>. For 1,500,000 rows the loop runs twice and
  the second range is \<open>(1000000, 2000000)\<close>: \<open>end\<close> is only lowered to the row count when
  the whole dataset is shorter than one chunk, so this range ends 500,000 past the
  last row.
\<close>

theorem chunk_ranges_1500000:
  "chunk_ranges 1500000 = [(0, 1000000), (1000000, 2000000)]"
  by (simp add: chunk_ranges_def chunk_counts_1500000 chunk_range_def chunk_def Let_def)

text \<open>
  C6. \<open>divide\<close> at a nonzero scale \<open>s\<close> is the quotient \<open>a / s\<close>; at scale \<open>0\<close> it is
  \<open>0.0\<close>; it never raises; elementwise, \<open>[0, 100000000, 50000000]\<close> at scale
  \<open>100000000\<close> gives \<open>[0.0, 1.0, 0.5]\<close>, and any array with an element gives \<open>0.0\<close>
  for every element at scale \<open>0\<close>.
\<close>

theorem divide_scaled_decimal:
  "(s \<noteq> 0 \<longrightarrow> divide a s = Inr (of_int a / of_int s))
   \<and> divide a 0 = Inr 0
   \<and> (\<forall>e. divide a s \<noteq> Inl e)
   \<and> np_vectorize_divide [0, 100000000, 50000000] 100000000 = Inr [0, 1, 1 / 2]
   \<and> (xs \<noteq> [] \<longrightarrow> np_vectorize_divide xs 0 = Inr (replicate (length xs) 0))"
proof -
  have "map_err (\<lambda>a. divide a 0) xs = Inr (map (\<lambda>a. 0) xs)"
    by (rule map_err_Inr) (simp add: divide_total)
  then have "xs \<noteq> [] \<longrightarrow> np_vectorize_divide xs 0 = Inr (replicate (length xs) 0)"
    by (simp add: np_vectorize_divide_def np_vectorize_def map_replicate_const)
  moreover have "np_vectorize_divide [0, 100000000, 50000000] 100000000 = Inr [0, 1, 1 / 2]"
    by (simp add: np_vectorize_divide_def np_vectorize_def divide_total)
  ultimately show ?thesis by (simp add: divide_total)
qed

theorem divide_scaled_decimal_witness:
  "(100000000::int) \<noteq> 0 \<and> divide 50000000 100000000 = Inr (1 / 2)
   \<and> [7, 8] \<noteq> ([] :: int list) \<and> np_vectorize_divide [7, 8] 0 = Inr [0, 0]"
  using divide_scaled_decimal [of 100000000 50000000 "[7, 8]"] by simp

text \<open>
  C10. \<open>arrays_to_CSV_string\<close> gives one row for each position up to the length of the
  shortest array, and no more: what the longer arrays hold beyond it is dropped and
  nothing raises. Row \<open>i\<close> is the texts of the elements at position \<open>i\<close>, in the order
  of the arrays, joined by a comma; the rows are joined by a newline. The text has no
  terminator after the last row: only with one more newline appended is it the
  concatenation of the rows with a newline after each. No array gives the empty text.
\<close>

theorem arrays_to_CSV_string_rows:
  "arrays_to_CSV_string str_of [] = []
   \<and> (arrays \<noteq> [] \<longrightarrow>
        arrays_to_CSV_string str_of arrays =
          join [CHR 0x0A]
            (map (\<lambda>i. join '','' (map (\<lambda>a. str_of (a ! i)) arrays))
               [0 ..< Min (length ` set arrays)])
        \<and> (0 < Min (length ` set arrays) \<longrightarrow>
             arrays_to_CSV_string str_of arrays @ [CHR 0x0A] =
               concat (map (\<lambda>i. join '','' (map (\<lambda>a. str_of (a ! i)) arrays) @ [CHR 0x0A])
                  [0 ..< Min (length ` set arrays)])))"
proof -
  have empty: "arrays_to_CSV_string str_of [] = []"
    by (simp add: arrays_to_CSV_string_def)
  have rows: "arrays_to_CSV_string str_of arrays =
          join [CHR 0x0A]
            (map (\<lambda>i. join '','' (map (\<lambda>a. str_of (a ! i)) arrays))
               [0 ..< Min (length ` set arrays)])" if "arrays \<noteq> []"
  proof -
    have "map (\<lambda>variables. join '','' (map str_of variables)) (zip_star arrays)
        = map (\<lambda>variables. join '','' (map str_of variables))
            (map (\<lambda>i. map (\<lambda>xs. xs ! i) arrays) [0 ..< length (zip_star arrays)])"
      using zip_star_rows [of arrays] by simp
    also have "\<dots> = map (\<lambda>i. join '','' (map (\<lambda>a. str_of (a ! i)) arrays))
               [0 ..< Min (length ` set arrays)]"
      using that by (simp add: length_zip_star o_def)
    finally show ?thesis by (simp add: arrays_to_CSV_string_def)
  qed
  have terminated: "arrays_to_CSV_string str_of arrays @ [CHR 0x0A] =
               concat (map (\<lambda>i. join '','' (map (\<lambda>a. str_of (a ! i)) arrays) @ [CHR 0x0A])
                  [0 ..< Min (length ` set arrays)])"
    if "arrays \<noteq> []" "0 < Min (length ` set arrays)"
  proof -
    have "map (\<lambda>i. join '','' (map (\<lambda>a. str_of (a ! i)) arrays))
               [0 ..< Min (length ` set arrays)] \<noteq> []"
      using that(2) by simp
    from join_terminated [OF this, of "[CHR 0x0A]"] rows [OF that(1)]
    show ?thesis by (simp add: o_def)
  qed
  from empty rows terminated show ?thesis by blast
qed

theorem arrays_to_CSV_string_rows_witness:
  "arrays_to_CSV_string id [[''1'', ''2'', ''3''], [''a'', ''b'']] = ''1,a'' @ [CHR 0x0A] @ ''2,b''"
proof -
  have ne: "[[''1'', ''2'', ''3''], [''a'', ''b'']] \<noteq> ([] :: string list list)" by simp
  have m: "Min (length ` set [[''1'', ''2'', ''3''], [''a'', ''b'']]) = 2" by simp
  from arrays_to_CSV_string_rows [of id "[[''1'', ''2'', ''3''], [''a'', ''b'']]"] ne
  have "arrays_to_CSV_string id [[''1'', ''2'', ''3''], [''a'', ''b'']] =
          join [CHR 0x0A]
            (map (\<lambda>i. join '','' (map (\<lambda>a. id (a ! i)) [[''1'', ''2'', ''3''], [''a'', ''b'']]))
               [0 ..< Min (length ` set [[''1'', ''2'', ''3''], [''a'', ''b'']])])"
    by blast
  then show ?thesis unfolding m by (simp add: upt_rec)
qed

text \<open>
  C5. Event kind executed (table \<open>tick_data_match\<close>): in every chunk whose sides decode,
  the buffer handed to the store holds one line for each row of the slice, in the order of
  the rows, and the line of a row is its seven fields product, side, time, price, size,
  maker order id, taker order id, each as \<^verbatim>\<open>str\<close> prints it, in this order and separated
  by commas; the column list of the \<^verbatim>\<open>COPY\<close> statement names them in the same order. The
  maker (taker) order id is the one of the row, or the nil identifier in every row if the
  column of the slice does not decode.
\<close>

theorem executed_row_text:
  assumes range: "chunk_range (length ds) count = Some (start, stop)"
    and side: "None \<notin> side_col ` set (py_slice ds start stop)"
  shows "bind_err (chunk_body str_of ds ''tick_data_match'' product_id count (env0, cur))
       (\<lambda>s. Inr (snd s)) =
     Inr (cur @ [(''COPY tick_data_match (product_id, side, time, price, size, maker_order_id, taker_order_id) FROM STDIN WITH CSV HEADER'',
         join [CHR 0x0A] (map (\<lambda>r. join '','' (map str_of
             [IntC product_id,
              StrC (the (side_col r)),
              DatetimeC (of_int (time_col r) / 1000000),
              price_col r,
              FloatC (of_int (size_col r) / 100000000),
              StrC (if None \<in> maker_order_id_col ` set (py_slice ds start stop) then nil_uuid
                 else the (maker_order_id_col r)),
              StrC (if None \<in> taker_order_id_col ` set (py_slice ds start stop) then nil_uuid
                 else the (taker_order_id_col r))])) (py_slice ds start stop)))])"
  using range side by (rule chunk_body_match_text)

text \<open>
  One row, with a renderer that prints the cells of this row as \<^verbatim>\<open>str\<close> does (the time
  in UTC).
\<close>

theorem executed_row_text_witness:
  "chunk_range (length [\<lparr>side_col = Some ''buy'', time_col = 1500000000000000,
       price_col = FloatC (201 / 2), size_col = 100000000, remaining_size_col = 0,
       old_size_col = 0, new_size_col = 0, order_id_col = None,
       maker_order_id_col = Some ''m1'', taker_order_id_col = Some ''t1'', reason_col = None,
       order_type_col = None\<rparr>]) 0 = Some (0, 1)
   \<and> None \<notin> side_col ` set (py_slice [\<lparr>side_col = Some ''buy'', time_col = 1500000000000000,
       price_col = FloatC (201 / 2), size_col = 100000000, remaining_size_col = 0,
       old_size_col = 0, new_size_col = 0, order_id_col = None,
       maker_order_id_col = Some ''m1'', taker_order_id_col = Some ''t1'', reason_col = None,
       order_type_col = None\<rparr>] 0 1)
   \<and> bind_err (chunk_body
         (\<lambda>c. case c of IntC i \<Rightarrow> ''7'' | FloatC q \<Rightarrow> (if q = 1 then ''1.0'' else ''100.5'')
          | StrC s \<Rightarrow> s | DatetimeC t \<Rightarrow> ''2017-07-14 02:40:00'')
         [\<lparr>side_col = Some ''buy'', time_col = 1500000000000000,
       price_col = FloatC (201 / 2), size_col = 100000000, remaining_size_col = 0,
       old_size_col = 0, new_size_col = 0, order_id_col = None,
       maker_order_id_col = Some ''m1'', taker_order_id_col = Some ''t1'', reason_col = None,
       order_type_col = None\<rparr>] ''tick_data_match'' 7 0 (locals0, []))
       (\<lambda>s. Inr (snd s)) =
     Inr [(''COPY tick_data_match (product_id, side, time, price, size, maker_order_id, taker_order_id) FROM STDIN WITH CSV HEADER'',
           ''7,buy,2017-07-14 02:40:00,100.5,1.0,m1,t1'')]"
proof -
  define r where "r = \<lparr>side_col = Some ''buy'', time_col = 1500000000000000,
       price_col = FloatC (201 / 2), size_col = 100000000, remaining_size_col = 0,
       old_size_col = 0, new_size_col = 0, order_id_col = None,
       maker_order_id_col = Some ''m1'', taker_order_id_col = Some ''t1'', reason_col = None,
       order_type_col = None\<rparr>"
  define R where "R = (\<lambda>c. case c of IntC i \<Rightarrow> ''7'' | FloatC q \<Rightarrow> (if q = 1 then ''1.0'' else ''100.5'')
          | StrC s \<Rightarrow> s | DatetimeC t \<Rightarrow> ''2017-07-14 02:40:00'')"
  have h1: "chunk_range (length [r]) 0 = Some (0, 1)"
    by (simp add: chunk_range_def chunk_def)
  have sl: "py_slice [r] 0 1 = [r]" by (simp add: py_slice_def)
  have h2: "None \<notin> side_col ` set (py_slice [r] 0 1)"
    unfolding sl by (simp add: r_def)
  from executed_row_text [OF h1 h2, of R 7 locals0 "[]"]
  have "bind_err (chunk_body R [r] ''tick_data_match'' 7 0 (locals0, [])) (\<lambda>s. Inr (snd s)) =
     Inr [(''COPY tick_data_match (product_id, side, time, price, size, maker_order_id, taker_order_id) FROM STDIN WITH CSV HEADER'',
           ''7,buy,2017-07-14 02:40:00,100.5,1.0,m1,t1'')]"
    unfolding sl by (simp add: r_def R_def)
  with h1 h2 show ?thesis unfolding r_def R_def by blast
qed

text \<open>
  C3. The claim: the serialized price field is the stored value divided by \<open>10^8\<close>, as
  the size fields are. It is not: line 75 takes the price column as it is stored and no
  line divides it. For each of the four kinds with a price column (tables
  \<open>tick_data_match\<close>, \<open>tick_data_open\<close>, \<open>tick_data_done\<close>, \<open>tick_data_change\<close>) and every
  chunk whose sides decode (and, for \<open>done\<close>, whose reasons decode), the fourth field of the
  line of a row in the buffer handed to the store is \<^verbatim>\<open>str\<close> of the stored price of the
  row, unchanged; the size fields (size, remaining size, old and new size) are \<^verbatim>\<open>str\<close>
  of the stored integer divided by \<open>10^8\<close>.
\<close>

theorem price_field_serialized_raw:
  assumes range: "chunk_range (length ds) count = Some (start, stop)"
    and side: "None \<notin> side_col ` set (py_slice ds start stop)"
  shows "bind_err (chunk_body str_of ds ''tick_data_match'' product_id count (env0, cur))
       (\<lambda>s. Inr (snd s)) =
     Inr (cur @ [(''COPY tick_data_match (product_id, side, time, price, size, maker_order_id, taker_order_id) FROM STDIN WITH CSV HEADER'',
         join [CHR 0x0A] (map (\<lambda>r. join '','' (map str_of
             [IntC product_id,
              StrC (the (side_col r)),
              DatetimeC (of_int (time_col r) / 1000000),
              price_col r,
              FloatC (of_int (size_col r) / 100000000),
              StrC (if None \<in> maker_order_id_col ` set (py_slice ds start stop) then nil_uuid
                 else the (maker_order_id_col r)),
              StrC (if None \<in> taker_order_id_col ` set (py_slice ds start stop) then nil_uuid
                 else the (taker_order_id_col r))])) (py_slice ds start stop)))])
   \<and> bind_err (chunk_body str_of ds ''tick_data_open'' product_id count (env0, cur))
       (\<lambda>s. Inr (snd s)) =
     Inr (cur @ [(''COPY tick_data_open (product_id, side, time, price, remaining_size, order_id) FROM STDIN WITH CSV HEADER'',
         join [CHR 0x0A] (map (\<lambda>r. join '','' (map str_of
             [IntC product_id,
              StrC (the (side_col r)),
              DatetimeC (of_int (time_col r) / 1000000),
              price_col r,
              FloatC (of_int (remaining_size_col r) / 100000000),
              StrC (if None \<in> order_id_col ` set (py_slice ds start stop) then nil_uuid else the (order_id_col r))])) (py_slice ds start stop)))])
   \<and> (None \<notin> reason_col ` set (py_slice ds start stop) \<longrightarrow>
     bind_err (chunk_body str_of ds ''tick_data_done'' product_id count (env0, cur))
       (\<lambda>s. Inr (snd s)) =
     Inr (cur @ [(''COPY tick_data_done (product_id, side, time, price, remaining_size, reason, order_id) FROM STDIN WITH CSV HEADER'',
         join [CHR 0x0A] (map (\<lambda>r. join '','' (map str_of
             [IntC product_id,
              StrC (the (side_col r)),
              DatetimeC (of_int (time_col r) / 1000000),
              price_col r,
              FloatC (of_int (remaining_size_col r) / 100000000),
              StrC (the (reason_col r)),
              StrC (if None \<in> order_id_col ` set (py_slice ds start stop) then nil_uuid else the (order_id_col r))])) (py_slice ds start stop)))]))
   \<and> bind_err (chunk_body str_of ds ''tick_data_change'' product_id count (env0, cur))
       (\<lambda>s. Inr (snd s)) =
     Inr (cur @ [(''COPY tick_data_change (product_id, side, time, price, old_size, new_size, order_id) FROM STDIN WITH CSV HEADER'',
         join [CHR 0x0A] (map (\<lambda>r. join '','' (map str_of
             [IntC product_id,
              StrC (the (side_col r)),
              DatetimeC (of_int (time_col r) / 1000000),
              price_col r,
              FloatC (of_int (old_size_col r) / 100000000),
              FloatC (of_int (new_size_col r) / 100000000),
              StrC (if None \<in> order_id_col ` set (py_slice ds start stop) then nil_uuid else the (order_id_col r))])) (py_slice ds start stop)))])"
  using range side
  by (intro conjI impI chunk_body_match_text chunk_body_open_text chunk_body_done_text
      chunk_body_change_text)

text \<open>
  One row with the stored price 100.5 and every stored size 50000000, with a renderer
  that prints the cells of this row as \<^verbatim>\<open>str\<close> does (the time in UTC): the price field is
  100.5 and the size fields are 0.5 in the chunks of the four kinds.
\<close>

theorem price_field_serialized_raw_witness:
  "chunk_range (length [\<lparr>side_col = Some ''sell'', time_col = 0,
       price_col = FloatC (201 / 2), size_col = 50000000, remaining_size_col = 50000000,
       old_size_col = 50000000, new_size_col = 50000000, order_id_col = Some ''o1'',
       maker_order_id_col = Some ''m1'', taker_order_id_col = Some ''t1'',
       reason_col = Some ''filled'', order_type_col = None\<rparr>]) 0 = Some (0, 1)
   \<and> None \<notin> side_col ` set (py_slice [\<lparr>side_col = Some ''sell'', time_col = 0,
       price_col = FloatC (201 / 2), size_col = 50000000, remaining_size_col = 50000000,
       old_size_col = 50000000, new_size_col = 50000000, order_id_col = Some ''o1'',
       maker_order_id_col = Some ''m1'', taker_order_id_col = Some ''t1'',
       reason_col = Some ''filled'', order_type_col = None\<rparr>] 0 1)
   \<and> None \<notin> reason_col ` set (py_slice [\<lparr>side_col = Some ''sell'', time_col = 0,
       price_col = FloatC (201 / 2), size_col = 50000000, remaining_size_col = 50000000,
       old_size_col = 50000000, new_size_col = 50000000, order_id_col = Some ''o1'',
       maker_order_id_col = Some ''m1'', taker_order_id_col = Some ''t1'',
       reason_col = Some ''filled'', order_type_col = None\<rparr>] 0 1)
   \<and> bind_err (chunk_body (\<lambda>c. case c of IntC i \<Rightarrow> ''7'' | FloatC q \<Rightarrow> (if q = 1 / 2 then ''0.5'' else ''100.5'')
          | StrC s \<Rightarrow> s | DatetimeC t \<Rightarrow> ''1970-01-01 00:00:00'') [\<lparr>side_col = Some ''sell'', time_col = 0,
       price_col = FloatC (201 / 2), size_col = 50000000, remaining_size_col = 50000000,
       old_size_col = 50000000, new_size_col = 50000000, order_id_col = Some ''o1'',
       maker_order_id_col = Some ''m1'', taker_order_id_col = Some ''t1'',
       reason_col = Some ''filled'', order_type_col = None\<rparr>] ''tick_data_match'' 7 0 (locals0, []))
       (\<lambda>s. Inr (snd s)) =
     Inr [(''COPY tick_data_match (product_id, side, time, price, size, maker_order_id, taker_order_id) FROM STDIN WITH CSV HEADER'',
           ''7,sell,1970-01-01 00:00:00,100.5,0.5,m1,t1'')]
   \<and> bind_err (chunk_body (\<lambda>c. case c of IntC i \<Rightarrow> ''7'' | FloatC q \<Rightarrow> (if q = 1 / 2 then ''0.5'' else ''100.5'')
          | StrC s \<Rightarrow> s | DatetimeC t \<Rightarrow> ''1970-01-01 00:00:00'') [\<lparr>side_col = Some ''sell'', time_col = 0,
       price_col = FloatC (201 / 2), size_col = 50000000, remaining_size_col = 50000000,
       old_size_col = 50000000, new_size_col = 50000000, order_id_col = Some ''o1'',
       maker_order_id_col = Some ''m1'', taker_order_id_col = Some ''t1'',
       reason_col = Some ''filled'', order_type_col = None\<rparr>] ''tick_data_open'' 7 0 (locals0, []))
       (\<lambda>s. Inr (snd s)) =
     Inr [(''COPY tick_data_open (product_id, side, time, price, remaining_size, order_id) FROM STDIN WITH CSV HEADER'',
           ''7,sell,1970-01-01 00:00:00,100.5,0.5,o1'')]
   \<and> bind_err (chunk_body (\<lambda>c. case c of IntC i \<Rightarrow> ''7'' | FloatC q \<Rightarrow> (if q = 1 / 2 then ''0.5'' else ''100.5'')
          | StrC s \<Rightarrow> s | DatetimeC t \<Rightarrow> ''1970-01-01 00:00:00'') [\<lparr>side_col = Some ''sell'', time_col = 0,
       price_col = FloatC (201 / 2), size_col = 50000000, remaining_size_col = 50000000,
       old_size_col = 50000000, new_size_col = 50000000, order_id_col = Some ''o1'',
       maker_order_id_col = Some ''m1'', taker_order_id_col = Some ''t1'',
       reason_col = Some ''filled'', order_type_col = None\<rparr>] ''tick_data_done'' 7 0 (locals0, []))
       (\<lambda>s. Inr (snd s)) =
     Inr [(''COPY tick_data_done (product_id, side, time, price, remaining_size, reason, order_id) FROM STDIN WITH CSV HEADER'',
           ''7,sell,1970-01-01 00:00:00,100.5,0.5,filled,o1'')]
   \<and> bind_err (chunk_body (\<lambda>c. case c of IntC i \<Rightarrow> ''7'' | FloatC q \<Rightarrow> (if q = 1 / 2 then ''0.5'' else ''100.5'')
          | StrC s \<Rightarrow> s | DatetimeC t \<Rightarrow> ''1970-01-01 00:00:00'') [\<lparr>side_col = Some ''sell'', time_col = 0,
       price_col = FloatC (201 / 2), size_col = 50000000, remaining_size_col = 50000000,
       old_size_col = 50000000, new_size_col = 50000000, order_id_col = Some ''o1'',
       maker_order_id_col = Some ''m1'', taker_order_id_col = Some ''t1'',
       reason_col = Some ''filled'', order_type_col = None\<rparr>] ''tick_data_change'' 7 0 (locals0, []))
       (\<lambda>s. Inr (snd s)) =
     Inr [(''COPY tick_data_change (product_id, side, time, price, old_size, new_size, order_id) FROM STDIN WITH CSV HEADER'',
           ''7,sell,1970-01-01 00:00:00,100.5,0.5,0.5,o1'')]"
proof -
  define r where "r = \<lparr>side_col = Some ''sell'', time_col = 0,
       price_col = FloatC (201 / 2), size_col = 50000000, remaining_size_col = 50000000,
       old_size_col = 50000000, new_size_col = 50000000, order_id_col = Some ''o1'',
       maker_order_id_col = Some ''m1'', taker_order_id_col = Some ''t1'',
       reason_col = Some ''filled'', order_type_col = None\<rparr>"
  define R where "R = (\<lambda>c. case c of IntC i \<Rightarrow> ''7'' | FloatC q \<Rightarrow> (if q = 1 / 2 then ''0.5'' else ''100.5'')
          | StrC s \<Rightarrow> s | DatetimeC t \<Rightarrow> ''1970-01-01 00:00:00'')"
  have h1: "chunk_range (length [r]) 0 = Some (0, 1)"
    by (simp add: chunk_range_def chunk_def)
  have sl: "py_slice [r] 0 1 = [r]" by (simp add: py_slice_def)
  have h2: "None \<notin> side_col ` set (py_slice [r] 0 1)"
    unfolding sl by (simp add: r_def)
  have h3: "None \<notin> reason_col ` set (py_slice [r] 0 1)"
    unfolding sl by (simp add: r_def)
  note t = price_field_serialized_raw [OF h1 h2, of R 7 locals0 "[]"]
  have m: "bind_err (chunk_body R [r] ''tick_data_match'' 7 0 (locals0, []))
       (\<lambda>s. Inr (snd s)) =
     Inr [(''COPY tick_data_match (product_id, side, time, price, size, maker_order_id, taker_order_id) FROM STDIN WITH CSV HEADER'',
           ''7,sell,1970-01-01 00:00:00,100.5,0.5,m1,t1'')]"
    using t unfolding sl by (simp add: r_def R_def)
  have o: "bind_err (chunk_body R [r] ''tick_data_open'' 7 0 (locals0, []))
       (\<lambda>s. Inr (snd s)) =
     Inr [(''COPY tick_data_open (product_id, side, time, price, remaining_size, order_id) FROM STDIN WITH CSV HEADER'',
           ''7,sell,1970-01-01 00:00:00,100.5,0.5,o1'')]"
    using t unfolding sl by (simp add: r_def R_def)
  have d: "bind_err (chunk_body R [r] ''tick_data_done'' 7 0 (locals0, []))
       (\<lambda>s. Inr (snd s)) =
     Inr [(''COPY tick_data_done (product_id, side, time, price, remaining_size, reason, order_id) FROM STDIN WITH CSV HEADER'',
           ''7,sell,1970-01-01 00:00:00,100.5,0.5,filled,o1'')]"
    using t h3 unfolding sl by (simp add: r_def R_def)
  have c: "bind_err (chunk_body R [r] ''tick_data_change'' 7 0 (locals0, []))
       (\<lambda>s. Inr (snd s)) =
     Inr [(''COPY tick_data_change (product_id, side, time, price, old_size, new_size, order_id) FROM STDIN WITH CSV HEADER'',
           ''7,sell,1970-01-01 00:00:00,100.5,0.5,0.5,o1'')]"
    using t unfolding sl by (simp add: r_def R_def)
  from h1 h2 h3 m o d c show ?thesis unfolding r_def R_def by blast
qed

text \<open>
  A stored price of 100000000 and a stored size of 100000000 in the one row of a match
  table, with a renderer that prints the cells of this row as \<^verbatim>\<open>str\<close> does: the price
  field of the line is 100000000, where the claim has 1.0; the size field is 1.0.
\<close>

theorem price_field_scaled_counterexample:
  "bind_err (chunk_body
         (\<lambda>c. case c of IntC i \<Rightarrow> (if i = 1 then ''1'' else ''100000000'') | FloatC q \<Rightarrow> ''1.0''
          | StrC s \<Rightarrow> s | DatetimeC t \<Rightarrow> ''1970-01-01 00:00:00'')
         [\<lparr>side_col = Some ''buy'', time_col = 0,
       price_col = IntC 100000000, size_col = 100000000, remaining_size_col = 0,
       old_size_col = 0, new_size_col = 0, order_id_col = None,
       maker_order_id_col = Some ''m'', taker_order_id_col = Some ''t'', reason_col = None,
       order_type_col = None\<rparr>] ''tick_data_match'' 1 0 (locals0, []))
       (\<lambda>s. Inr (snd s)) =
     Inr [(''COPY tick_data_match (product_id, side, time, price, size, maker_order_id, taker_order_id) FROM STDIN WITH CSV HEADER'',
           ''1,buy,1970-01-01 00:00:00,100000000,1.0,m,t'')]"
  using chunk_body_match_text [of "[\<lparr>side_col = Some ''buy'', time_col = 0,
       price_col = IntC 100000000, size_col = 100000000, remaining_size_col = 0,
       old_size_col = 0, new_size_col = 0, order_id_col = None,
       maker_order_id_col = Some ''m'', taker_order_id_col = Some ''t'', reason_col = None,
       order_type_col = None\<rparr>]" 0 0 1
      "(\<lambda>c. case c of IntC i \<Rightarrow> (if i = 1 then ''1'' else ''100000000'') | FloatC q \<Rightarrow> ''1.0''
          | StrC s \<Rightarrow> s | DatetimeC t \<Rightarrow> ''1970-01-01 00:00:00'')" 1 locals0 "[]"]
  by (simp add: chunk_range_def chunk_def py_slice_def)

text \<open>
  C4. The claim: when an identifier column of a chunk of \<open>n\<close> rows does not decode, the
  column becomes an array of length \<open>n\<close> of nil identifiers. Every element is the nil
  identifier, but the array is \<^verbatim>\<open>np.full(end, ...)\<close>: its length is \<open>end\<close>, not the
  length of the chunk. In the second chunk of a table of 2,000,000 rows (rows 1,000,000
  to 2,000,000, so \<open>n\<close> is 1,000,000) the order id array has 2,000,000 elements.
\<close>

theorem decode_fallback_second_chunk:
  "chunk_range (length (replicate 2000000 \<lparr>side_col = Some ''buy'', time_col = 0,
       price_col = IntC 1, size_col = 0, remaining_size_col = 1, old_size_col = 0,
       new_size_col = 0, order_id_col = None, maker_order_id_col = None,
       taker_order_id_col = None, reason_col = None, order_type_col = None\<rparr>)) 1
     = Some (1000000, 2000000)
   \<and> length (py_slice (replicate 2000000 \<lparr>side_col = Some ''buy'', time_col = 0,
       price_col = IntC 1, size_col = 0, remaining_size_col = 1, old_size_col = 0,
       new_size_col = 0, order_id_col = None, maker_order_id_col = None,
       taker_order_id_col = None, reason_col = None, order_type_col = None\<rparr>)
         1000000 2000000) = 1000000
   \<and> bind_err (gather_order_id (replicate 2000000 \<lparr>side_col = Some ''buy'', time_col = 0,
       price_col = IntC 1, size_col = 0, remaining_size_col = 1, old_size_col = 0,
       new_size_col = 0, order_id_col = None, maker_order_id_col = None,
       taker_order_id_col = None, reason_col = None, order_type_col = None\<rparr>)
         ''open'' 1000000 2000000 locals0) (\<lambda>env. read_var env Order_id_array)
     = Inr (PArr (replicate 2000000 (StrC nil_uuid)))"
  by (simp add: chunk_range_def chunk_def py_slice_def gather_order_id_def decode_or_nil_eq
      bind_err_simps read_var_def np_full_def)

text \<open>
  C8. The claim: a table of an unknown event kind raises, whatever its row count. It
  raises when the table has a row: in the first iteration nothing is gathered, and
  either a substring test of lines 105 to 121 reads an unbound variable, or the lookup
  of line 129 raises KeyError; the exception ends the processing of the table in the
  module's loop as well. A table with no row never enters the loop: the call returns
  and the cursor is as before.
\<close>

theorem unknown_kind_raises:
  assumes unknown: "g \<notin> set [''match'', ''open'', ''done'', ''change'', ''received'']"
  shows "(ds \<noteq> [] \<longrightarrow>
            (\<exists>e. assemble_data_as_string str_of cur product_id ds (''tick_data_'' @ g) = Inl e
                \<and> (e = KeyError g \<or> e = UnboundLocalError Product_id_array
                     \<or> e = UnboundLocalError Order_type_array))
          \<and> (\<exists>e. process_table str_of g (table, ds) db = Inl e))
       \<and> (ds = [] \<longrightarrow>
            assemble_data_as_string str_of cur product_id ds (''tick_data_'' @ g) = Inr cur)"
proof (intro conjI impI)
  assume ds: "ds \<noteq> []"
  show "\<exists>e. assemble_data_as_string str_of cur product_id ds (''tick_data_'' @ g) = Inl e
                \<and> (e = KeyError g \<or> e = UnboundLocalError Product_id_array
                     \<or> e = UnboundLocalError Order_type_array)"
    by (rule assemble_unknown_raises [OF unknown ds])
  have a: "\<exists>e. assemble_data_as_string str_of c p ds (''tick_data_'' @ g) = Inl e" for c p
    using assemble_unknown_raises [OF unknown ds, of str_of c p] by blast
  show "\<exists>e. process_table str_of g (table, ds) db = Inl e"
  proof (cases "split_on CHR ''_'' table")
    case Nil
    then show ?thesis by (simp add: process_table_def)
  next
    case (Cons s rest)
    show ?thesis
    proof (cases rest)
      case Nil
      with Cons show ?thesis by (simp add: process_table_def)
    next
      case (Cons c rest')
      note c = this
      show ?thesis
      proof (cases rest')
        case Nil
        show ?thesis
        proof (cases "symbol_name_lookup s")
          case None
          with \<open>split_on CHR ''_'' table = s # rest\<close> c Nil show ?thesis
            by (simp add: process_table_def)
        next
          case (Some n)
          from a obtain e where
            "assemble_data_as_string str_of
               (copied (insert_product_id (db\<lparr>stdout := stdout db @ [Loading table g]\<rparr>) s c n
                  ''Coinbase Pro''))
               (populate_product_table
                  (insert_product_id (db\<lparr>stdout := stdout db @ [Loading table g]\<rparr>) s c n
                  ''Coinbase Pro'') ds s c ''Coinbase Pro'')
               ds (''tick_data_'' @ g) = Inl e"
            by blast
          with \<open>split_on CHR ''_'' table = s # rest\<close> c Nil Some show ?thesis
            by (simp add: process_table_def Let_def bind_err_simps)
        qed
      next
        case (Cons x xs)
        with \<open>split_on CHR ''_'' table = s # rest\<close> c show ?thesis
          by (simp add: process_table_def)
      qed
    qed
  qed
next
  assume "ds = []"
  then show "assemble_data_as_string str_of cur product_id ds (''tick_data_'' @ g) = Inr cur"
    by (simp add: assemble_data_as_string_def chunk_counts_0 bind_err_simps)
qed

theorem unknown_kind_raises_witness:
  "''trades'' \<notin> set [''match'', ''open'', ''done'', ''change'', ''received'']
   \<and> [\<lparr>side_col = Some ''buy'', time_col = 0, price_col = IntC 1, size_col = 0,
        remaining_size_col = 0, old_size_col = 0, new_size_col = 0, order_id_col = None,
        maker_order_id_col = None, taker_order_id_col = None, reason_col = None,
        order_type_col = None\<rparr>] \<noteq> []
   \<and> (\<exists>e. process_table (\<lambda>c. []) ''trades'' (''BTC_USD'',
          [\<lparr>side_col = Some ''buy'', time_col = 0, price_col = IntC 1, size_col = 0,
            remaining_size_col = 0, old_size_col = 0, new_size_col = 0, order_id_col = None,
            maker_order_id_col = None, taker_order_id_col = None, reason_col = None,
            order_type_col = None\<rparr>])
          \<lparr>product = [], product_seq = 1, file_log = [], copied = [], stdout = [],
       committed_product = [], committed_file_log = [], committed_copied = []\<rparr> = Inl e)"
proof -
  have k: "''trades'' \<notin> set [''match'', ''open'', ''done'', ''change'', ''received'']"
    by simp
  from unknown_kind_raises [OF k, of "[\<lparr>side_col = Some ''buy'', time_col = 0,
        price_col = IntC 1, size_col = 0,
        remaining_size_col = 0, old_size_col = 0, new_size_col = 0, order_id_col = None,
        maker_order_id_col = None, taker_order_id_col = None, reason_col = None,
        order_type_col = None\<rparr>]" "\<lambda>c. []" "[]" 0 "''BTC_USD''"
        "\<lparr>product = [], product_seq = 1, file_log = [], copied = [], stdout = [],
       committed_product = [], committed_file_log = [], committed_copied = []\<rparr>"] k
  show ?thesis by blast
qed

text \<open>
  An empty table of the unknown kind \<open>trades\<close>: its processing ends without an
  exception, with the two progress messages printed and nothing handed to the store.
\<close>

theorem unknown_kind_empty_counterexample:
  "bind_err (process_table (\<lambda>c. []) ''trades'' (''BTC_USD'', [])
       \<lparr>product = [], product_seq = 1, file_log = [], copied = [], stdout = [],
       committed_product = [], committed_file_log = [], committed_copied = []\<rparr>)
     (\<lambda>db. Inr (copied db, stdout db))
   = Inr ([], [Loading ''BTC_USD'' ''trades'', Time_taken])"
  by (simp add: process_table_def symbol_name_lookup_def insert_product_id_def
      populate_product_table_def assemble_empty bind_err_simps conn_commit_def)



text \<open>
  C7. In a store whose product identifiers are not 0 (and whose sequence does not give
  0): after \<open>insert_product_id\<close>, \<open>populate_product_table\<close> returns 0 only for a table
  with no row, and for such a table \<open>assemble_data_as_string\<close> hands nothing to the
  store, so that in the module's loop the processing of the table leaves the buffers
  handed to the store as they were. For a table with rows the identifier is not 0, and
  in every chunk of a kind with a product column the product array holds this
  identifier at every position.
\<close>

theorem zero_product_id_emits_nothing:
  assumes ids: "0 \<notin> p_unique_id ` set (product db)" and seq: "product_seq db \<noteq> 0"
    and pid: "product_id = populate_product_table (insert_product_id db s c n e) ds s c e"
  shows "(product_id = 0 \<longrightarrow>
            ds = [] \<and> assemble_data_as_string str_of cur product_id ds db_table = Inr cur)
       \<and> (ds \<noteq> [] \<longrightarrow> product_id \<noteq> 0)
       \<and> (k \<in> set [''match'', ''open'', ''done'', ''change'']
            \<and> gather ds k product_id start stop env0 = Inr env
          \<longrightarrow> env Product_id_array = Some (PArr (np_full stop (IntC product_id))))
       \<and> (split_on CHR ''_'' table = [s, c] \<and> symbol_name_lookup s = Some n
            \<and> populate_product_table
                 (insert_product_id (db\<lparr>stdout := stdout db @ [Loading table g]\<rparr>) s c n
                    ''Coinbase Pro'') ds s c ''Coinbase Pro'' = 0
          \<longrightarrow> (\<exists>db'. process_table str_of g (table, ds) db = Inr db'
                  \<and> copied db' = copied db))"
proof -
  have nz: "ds \<noteq> [] \<Longrightarrow> product_id \<noteq> 0"
    unfolding pid by (rule populate_nonzero [OF ids seq])
  then have "product_id = 0 \<Longrightarrow> ds = []" by blast
  then have z: "product_id = 0 \<Longrightarrow>
      ds = [] \<and> assemble_data_as_string str_of cur product_id ds db_table = Inr cur"
    by (simp add: assemble_empty)
  show ?thesis
    using nz z gather_product_id [of k ds product_id start stop env0 env]
      process_table_zero_product_id [OF ids seq, of table s c n g ds str_of]
    by blast
qed

theorem zero_product_id_emits_nothing_witness:
  "0 \<notin> p_unique_id ` set (product
       \<lparr>product = [], product_seq = 1, file_log = [], copied = [], stdout = [],
       committed_product = [], committed_file_log = [], committed_copied = []\<rparr>)
   \<and> product_seq \<lparr>product = [], product_seq = 1, file_log = [], copied = [], stdout = [],
       committed_product = [], committed_file_log = [], committed_copied = []\<rparr> \<noteq> 0
   \<and> populate_product_table (insert_product_id
        \<lparr>product = [], product_seq = 1, file_log = [], copied = [], stdout = [],
       committed_product = [], committed_file_log = [], committed_copied = []\<rparr>
        ''BTC'' ''USD'' ''Bitcoin'' ''Coinbase Pro'') [] ''BTC'' ''USD'' ''Coinbase Pro'' = 0
   \<and> assemble_data_as_string (\<lambda>c. []) [] 0 [] ''tick_data_match'' = Inr []"
proof -
  define db0 where
    "db0 = \<lparr>product = [], product_seq = 1, file_log = [], copied = [], stdout = [],
       committed_product = [], committed_file_log = [], committed_copied = []\<rparr>"
  have a: "0 \<notin> p_unique_id ` set (product db0)" by (simp add: db0_def)
  have b: "product_seq db0 \<noteq> 0" by (simp add: db0_def)
  have p: "populate_product_table (insert_product_id db0 ''BTC'' ''USD'' ''Bitcoin''
      ''Coinbase Pro'') [] ''BTC'' ''USD'' ''Coinbase Pro'' = 0"
    by (simp add: populate_product_table_def)
  from zero_product_id_emits_nothing [OF a b refl, of "''BTC''" "''USD''" "''Bitcoin''"
      "''Coinbase Pro''" "[]" "\<lambda>c. []" "[]" "''tick_data_match''"]
  have "assemble_data_as_string (\<lambda>c. []) [] 0 [] ''tick_data_match'' = Inr []"
    unfolding p by simp
  with a b p show ?thesis unfolding db0_def by blast
qed

text \<open>
  C2. The claim: a file whose name ends a filename of the ledger is skipped, so that no
  file is ingested twice across runs. The comment on line 188 says the lookup is there to
  see if the file has already been uploaded. It does not see it for a name with a
  backslash: line 191 interpolates the name into the \<^verbatim>\<open>LIKE\<close> pattern as it is, and
  PostgreSQL takes the backslash of a pattern for an escape. The file \<^verbatim>\<open>a\b.h5\<close>, with one
  row in the table \<open>BTC_USD\<close> of the group \<open>match\<close>, is in the folder for two runs of the
  script against a store that is empty at first. The first run commits a ledger row whose
  filename ends with the name of the file. The second run prints no notice of a record,
  adds a second ledger row and copies the row of the file a second time.
\<close>

theorem backslash_name_ingested_twice:
  "suffix (CHR ''a'' # CHR 0x5C # ''b.h5'') (hdf_folder @ ''/'' @ CHR ''a'' # CHR 0x5C # ''b.h5'')
   \<and> bind_err (run_script
         (\<lambda>c. case c of IntC i \<Rightarrow> ''1'' | FloatC q \<Rightarrow> ''1.0'' | StrC s \<Rightarrow> s
          | DatetimeC t \<Rightarrow> ''1970-01-01 00:00:00'')
         [(CHR ''a'' # CHR 0x5C # ''b.h5'', [(''match'', [(''BTC_USD'', [\<lparr>side_col = Some ''buy'', time_col = 0,
       price_col = IntC 1, size_col = 100000000, remaining_size_col = 0, old_size_col = 0,
       new_size_col = 0, order_id_col = None, maker_order_id_col = Some ''m'',
       taker_order_id_col = Some ''t'', reason_col = None, order_type_col = None\<rparr>])])], ''t1'')]
         \<lparr>product = [], product_seq = 1, file_log = [], copied = [], stdout = [],
       committed_product = [], committed_file_log = [], committed_copied = []\<rparr>)
       (\<lambda>db1. bind_err (run_script
         (\<lambda>c. case c of IntC i \<Rightarrow> ''1'' | FloatC q \<Rightarrow> ''1.0'' | StrC s \<Rightarrow> s
          | DatetimeC t \<Rightarrow> ''1970-01-01 00:00:00'')
         [(CHR ''a'' # CHR 0x5C # ''b.h5'', [(''match'', [(''BTC_USD'', [\<lparr>side_col = Some ''buy'', time_col = 0,
       price_col = IntC 1, size_col = 100000000, remaining_size_col = 0, old_size_col = 0,
       new_size_col = 0, order_id_col = None, maker_order_id_col = Some ''m'',
       taker_order_id_col = Some ''t'', reason_col = None, order_type_col = None\<rparr>])])], ''t2'')] db1)
       (\<lambda>db2. Inr (committed_file_log db1, committed_file_log db2, committed_copied db2,
                    stdout db2)))
     = Inr ([(hdf_folder @ ''/'' @ CHR ''a'' # CHR 0x5C # ''b.h5'', ''t1'')],
         [(hdf_folder @ ''/'' @ CHR ''a'' # CHR 0x5C # ''b.h5'', ''t1''),
          (hdf_folder @ ''/'' @ CHR ''a'' # CHR 0x5C # ''b.h5'', ''t2'')],
         [(''COPY tick_data_match (product_id, side, time, price, size, maker_order_id, taker_order_id) FROM STDIN WITH CSV HEADER'',
           ''1,buy,1970-01-01 00:00:00,1,1.0,m,t''),
          (''COPY tick_data_match (product_id, side, time, price, size, maker_order_id, taker_order_id) FROM STDIN WITH CSV HEADER'',
           ''1,buy,1970-01-01 00:00:00,1,1.0,m,t'')],
         [Processing (CHR ''a'' # CHR 0x5C # ''b.h5''), Loading ''BTC_USD'' ''match'', Time_taken,
          Processing (CHR ''a'' # CHR 0x5C # ''b.h5''), Loading ''BTC_USD'' ''match'', Time_taken])"
proof -
  have s: "suffix (CHR ''a'' # CHR 0x5C # ''b.h5'') (hdf_folder @ ''/'' @ CHR ''a'' # CHR 0x5C # ''b.h5'')"
    by (metis append.assoc suffixI)
  show ?thesis
    unfolding run_backslash_name_first bind_err_simps run_backslash_name_second
    using s by simp
qed

end
